theory Spec2Isabelle
  imports Complex_Main
begin

section \<open>Drum engine (src/services/drumEngine.ts)\<close>

text \<open>
  JavaScript numbers are modelled as exact reals: \<open>Math.tanh\<close> is \<^term>\<open>tanh\<close>,
  \<open>Math.pow\<close> on a positive base is \<^term>\<open>(powr)\<close>, \<open>Math.ceil\<close> is the ceiling.
  The rounding of IEEE doubles and of \<open>Float32Array\<close> stores is not part of the model.
  \<open>Math.random()\<close> is an explicit stream of reals that each call consumes from the front.
  Of the exceptions of the audio platform the model has the one the engine's own
  arithmetic can cause, the \<open>RangeError\<close> of an exponential ramp to 0. Times are
  timestamps of the audio clock, which are not negative; what the platform does with a
  negative time is not part of the model.
\<close>

subsection \<open>Waveshaper curve\<close>

definition samples :: nat where
  "samples = 44100"

text \<open>The table input of index \<open>i\<close>: \<open>const x = (i * 2) / samples - 1\<close>.\<close>

definition curve_x :: "nat \<Rightarrow> real" where
  "curve_x i = (real i * 2) / real samples - 1"

text \<open>The body of the loop of \<open>makeRatCurve\<close>: the value stored at \<open>curve[i]\<close>.\<close>

definition curve_entry :: "real \<Rightarrow> nat \<Rightarrow> real" where
  "curve_entry k i =
     (let x = curve_x i in
      if x \<ge> 0 then tanh (x * k * 1.2) * 0.9
      else tanh (x * k * 0.8))"

function makeRatCurve_loop :: "real \<Rightarrow> nat \<Rightarrow> real list \<Rightarrow> real list" where
  "makeRatCurve_loop k i curve =
     (if i < samples then makeRatCurve_loop k (i + 1) (curve[i := curve_entry k i])
      else curve)"
  by pat_completeness auto
termination
  by (relation "measure (\<lambda>(k, i, curve). samples - i)") auto

declare makeRatCurve_loop.simps [simp del]

definition makeRatCurve :: "real \<Rightarrow> real list" where
  "makeRatCurve amount =
     (let curve = replicate samples 0;
          k = amount * 50 + 1
      in makeRatCurve_loop k 0 curve)"

subsection \<open>Noise buffer\<close>

type_synonym random_source = "nat \<Rightarrow> real"

text \<open>
  The loop of \<open>createNoiseBuffer\<close>: \<open>data[i] = Math.random() * 2 - 1\<close> for
  \<open>i < length\<close>; every iteration takes the next number of the random source.
\<close>

function createNoiseBuffer_loop ::
  "int \<Rightarrow> nat \<Rightarrow> random_source \<Rightarrow> real list \<Rightarrow> real list \<times> random_source" where
  "createNoiseBuffer_loop len i rnd data =
     (if int i < len
      then createNoiseBuffer_loop len (i + 1) (\<lambda>n. rnd (n + 1)) (data[i := rnd 0 * 2 - 1])
      else (data, rnd))"
  by pat_completeness auto
termination
  by (relation "measure (\<lambda>(len, i, rnd, data). nat len - i)") auto

declare createNoiseBuffer_loop.simps [simp del]

text \<open>
  \<open>ctx.createBuffer(1, length, sampleRate)\<close> gives one zero-filled channel of
  \<open>length\<close> frames, which the loop then overwrites.
\<close>

definition createNoiseBuffer ::
  "real \<Rightarrow> random_source \<Rightarrow> real \<Rightarrow> real list \<times> random_source" where
  "createNoiseBuffer sampleRate rnd duration =
     (let len = \<lceil>sampleRate * duration\<rceil>;
          data = replicate (nat len) 0
      in createNoiseBuffer_loop len 0 rnd data)"

subsection \<open>Audio nodes\<close>

text \<open>
  The Web Audio objects the engine creates are modelled by what the engine can set on
  them. An \<open>AudioParam\<close> has its \<open>value\<close> attribute and the automation calls made
  on it, in call order. Freshly created nodes carry the platform's default values.
\<close>

datatype automation =
    SetValueAtTime real real
  | LinearRampToValueAtTime real real
  | ExponentialRampToValueAtTime real real
  | SetTargetAtTime real real real

record AudioParam =
  param_value :: real
  param_events :: "automation list"

definition newParam :: "real \<Rightarrow> AudioParam" where
  "newParam v = \<lparr>param_value = v, param_events = []\<rparr>"

definition setValue :: "real \<Rightarrow> AudioParam \<Rightarrow> AudioParam" where
  "setValue v p = p\<lparr>param_value := v\<rparr>"

definition setValueAtTime :: "real \<Rightarrow> real \<Rightarrow> AudioParam \<Rightarrow> AudioParam" where
  "setValueAtTime v startTime p = p\<lparr>param_events := param_events p @ [SetValueAtTime v startTime]\<rparr>"

definition linearRampToValueAtTime :: "real \<Rightarrow> real \<Rightarrow> AudioParam \<Rightarrow> AudioParam" where
  "linearRampToValueAtTime v endTime p =
     p\<lparr>param_events := param_events p @ [LinearRampToValueAtTime v endTime]\<rparr>"

text \<open>
  The platform rejects an exponential ramp to the value 0 with a \<open>RangeError\<close>; the
  exception leaves the parameter as it was and ends the method that made the call.
\<close>

datatype error = RangeError

definition exponentialRampToValueAtTime :: "real \<Rightarrow> real \<Rightarrow> AudioParam \<Rightarrow> error + AudioParam" where
  "exponentialRampToValueAtTime v endTime p =
     (if v = 0 then Inl RangeError
      else Inr (p\<lparr>param_events := param_events p @ [ExponentialRampToValueAtTime v endTime]\<rparr>))"

definition setTargetAtTime :: "real \<Rightarrow> real \<Rightarrow> real \<Rightarrow> AudioParam \<Rightarrow> AudioParam" where
  "setTargetAtTime target startTime timeConstant p =
     p\<lparr>param_events := param_events p @ [SetTargetAtTime target startTime timeConstant]\<rparr>"

datatype OscillatorType = Sine | Square | Sawtooth | Triangle

datatype BiquadFilterType = Lowpass | Highpass | Bandpass

datatype OverSampleType = OversampleNone | Oversample2x | Oversample4x

record OscillatorNode =
  osc_type :: OscillatorType
  osc_frequency :: AudioParam
  osc_detune :: AudioParam
  osc_start :: "real option"
  osc_stop :: "real option"

record AudioBufferSourceNode =
  src_buffer :: "real list option"
  src_start :: "real option"
  src_stop :: "real option"

record GainNode =
  gain :: AudioParam

record BiquadFilterNode =
  bq_type :: BiquadFilterType
  bq_frequency :: AudioParam
  bq_Q :: AudioParam

definition createOscillator :: OscillatorNode where
  "createOscillator = \<lparr>osc_type = Sine, osc_frequency = newParam 440, osc_detune = newParam 0,
     osc_start = None, osc_stop = None\<rparr>"

definition createBufferSource :: AudioBufferSourceNode where
  "createBufferSource = \<lparr>src_buffer = None, src_start = None, src_stop = None\<rparr>"

definition createGain :: GainNode where
  "createGain = \<lparr>gain = newParam 1\<rparr>"

definition createBiquadFilter :: BiquadFilterNode where
  "createBiquadFilter = \<lparr>bq_type = Lowpass, bq_frequency = newParam 350, bq_Q = newParam 1\<rparr>"

datatype node =
    Oscillator OscillatorNode
  | BufferSource AudioBufferSourceNode
  | Gain GainNode
  | BiquadFilter BiquadFilterNode

text \<open>
  A transient sub-graph is a node together with the sub-graphs connected to its input:
  \<open>a.connect(b)\<close> makes \<open>a\<close> an input of \<open>b\<close>. A sub-graph is recorded with the
  settings its nodes have when the trigger that built it returns.
\<close>

datatype subgraph = Sub node "subgraph list"

subsection \<open>Engine state\<close>

record RatConfig =
  distortion :: real
  filter_rat :: real
  volume_rat :: real

text \<open>\<open>Partial<RatConfig>\<close>: each property present or absent.\<close>

record PartialRatConfig =
  distortion_opt :: "real option"
  filter_opt :: "real option"
  volume_opt :: "real option"

record DrumVoiceConfig =
  volume :: real
  tune :: real
  decay :: real
  tone :: real
  velocity :: real

datatype DrumType = KICK | SNARE | HAT | CLAP

record AudioContext =
  currentTime :: real
  sampleRate :: real

datatype chain_node =
  RatInput | RatPreGain | RatWaveshaper | RatFilter | RatPostGain | Compressor |
  OutputNode | Destination

text \<open>
  The private fields of \<open>DrumEngine\<close>, the parameters of the long-lived nodes they hold,
  the connections between those nodes, and the transient sub-graphs connected into
  \<open>ratInput\<close>, in the order they were connected.
\<close>

record DrumEngine =
  ctx :: AudioContext
  outputNode_gain :: AudioParam
  ratInput_gain :: AudioParam
  ratInput_inputs :: "subgraph list"
  ratPreGain_gain :: AudioParam
  ratWaveshaper_curve :: "real list option"
  ratWaveshaper_oversample :: OverSampleType
  ratFilter_type :: BiquadFilterType
  ratFilter_frequency :: AudioParam
  ratFilter_Q :: AudioParam
  ratPostGain_gain :: AudioParam
  compressor_threshold :: AudioParam
  compressor_knee :: AudioParam
  compressor_ratio :: AudioParam
  compressor_attack :: AudioParam
  compressor_release :: AudioParam
  connections :: "(chain_node \<times> chain_node) list"
  kickModEnabled :: bool
  ratConfig :: RatConfig

text \<open>
  \<open>new DrumEngine(ctx, destination)\<close>: the field initialisers, \<open>setupRatPedal\<close>,
  \<open>setupCompressor\<close> and the three connections of the constructor.
\<close>

definition constructor :: "AudioContext \<Rightarrow> DrumEngine" where
  "constructor c =
     \<lparr>ctx = c,
      outputNode_gain = setValue 1.0 (newParam 1),
      ratInput_gain = setValue 1.0 (newParam 1),
      ratInput_inputs = [],
      ratPreGain_gain = setValue 1.0 (newParam 1),
      ratWaveshaper_curve = Some (makeRatCurve 0.4),
      ratWaveshaper_oversample = Oversample4x,
      ratFilter_type = Lowpass,
      ratFilter_frequency = setValue 8000 (newParam 350),
      ratFilter_Q = setValue 0.7 (newParam 1),
      ratPostGain_gain = setValue 0.8 (newParam 1),
      compressor_threshold = setValue (- 12) (newParam (- 24)),
      compressor_knee = setValue 6 (newParam 30),
      compressor_ratio = setValue 4 (newParam 12),
      compressor_attack = setValue 0.003 (newParam 0.003),
      compressor_release = setValue 0.15 (newParam 0.25),
      connections =
        [(RatInput, RatPreGain), (RatPreGain, RatWaveshaper), (RatWaveshaper, RatFilter),
         (RatFilter, RatPostGain), (RatPostGain, Compressor), (Compressor, OutputNode),
         (OutputNode, Destination)],
      kickModEnabled = False,
      ratConfig = \<lparr>distortion = 0.4, filter_rat = 0.8, volume_rat = 0.8\<rparr>\<rparr>"

subsection \<open>Update methods\<close>

text \<open>\<open>Object.assign(this.ratConfig, config)\<close>\<close>

definition assign :: "RatConfig \<Rightarrow> PartialRatConfig \<Rightarrow> RatConfig" where
  "assign rc config =
     \<lparr>distortion = (case distortion_opt config of None \<Rightarrow> distortion rc | Some v \<Rightarrow> v),
      filter_rat = (case filter_opt config of None \<Rightarrow> filter_rat rc | Some v \<Rightarrow> v),
      volume_rat = (case volume_opt config of None \<Rightarrow> volume_rat rc | Some v \<Rightarrow> v)\<rparr>"

definition updateRat :: "PartialRatConfig \<Rightarrow> DrumEngine \<Rightarrow> DrumEngine" where
  "updateRat config eng =
     (let eng = eng\<lparr>ratConfig := assign (ratConfig eng) config\<rparr>;
          now = currentTime (ctx eng);
          drive = 1 + (distortion (ratConfig eng) * 10);
          eng = eng\<lparr>ratPreGain_gain := setTargetAtTime drive now 0.05 (ratPreGain_gain eng)\<rparr>;
          eng = eng\<lparr>ratWaveshaper_curve := Some (makeRatCurve (distortion (ratConfig eng)))\<rparr>;
          minFreq = 200;
          maxFreq = 20000;
          freq = minFreq * ((maxFreq / minFreq) powr filter_rat (ratConfig eng));
          eng = eng\<lparr>ratFilter_frequency := setTargetAtTime freq now 0.05 (ratFilter_frequency eng)\<rparr>
      in eng\<lparr>ratPostGain_gain :=
               setTargetAtTime (volume_rat (ratConfig eng)) now 0.05 (ratPostGain_gain eng)\<rparr>)"

definition setKickMod :: "bool \<Rightarrow> DrumEngine \<Rightarrow> DrumEngine" where
  "setKickMod enabled eng = eng\<lparr>kickModEnabled := enabled\<rparr>"

definition setMasterVolume :: "real \<Rightarrow> DrumEngine \<Rightarrow> DrumEngine" where
  "setMasterVolume vol eng =
     eng\<lparr>outputNode_gain := setTargetAtTime vol (currentTime (ctx eng)) 0.05 (outputNode_gain eng)\<rparr>"

definition dispose :: "DrumEngine \<Rightarrow> DrumEngine" where
  "dispose eng = eng\<lparr>connections := filter (\<lambda>(a, b). a \<noteq> OutputNode) (connections eng)\<rparr>"

subsection \<open>Drum triggers\<close>

text \<open>
  A trigger builds its layers one after the other and connects each one into
  \<open>ratInput\<close> once its envelope is scheduled. An exception thrown while a layer is built
  ends the trigger there: the layers connected before stay connected, the nodes of the
  layer being built are connected to nothing, and the random numbers taken so far are
  used up. A trigger returns the engine, the random source and the exception, if any.
\<close>

text \<open>\<open>x.connect(this.ratInput)\<close>\<close>

definition connect_ratInput :: "subgraph \<Rightarrow> DrumEngine \<Rightarrow> DrumEngine" where
  "connect_ratInput g eng = eng\<lparr>ratInput_inputs := ratInput_inputs eng @ [g]\<rparr>"

text \<open>Kick, layer 1 (sub): \<open>subOsc \<rightarrow> subGain \<rightarrow> ratInput\<close>.\<close>

definition kickSub :: "real \<Rightarrow> real \<Rightarrow> bool \<Rightarrow> real \<Rightarrow> error + subgraph" where
  "kickSub time masterVol isModded baseFreq =
     (let subOsc = createOscillator;
          subGain = createGain;
          subOsc = subOsc\<lparr>osc_type := Sine\<rparr>;
          subOsc = osc_frequency_update (setValueAtTime baseFreq time) subOsc;
          subGain = gain_update (setValueAtTime 0 time) subGain;
          subGain = gain_update (linearRampToValueAtTime (masterVol * 0.8) (time + 0.005)) subGain
      in case exponentialRampToValueAtTime 0.001 (time + (if isModded then 0.4 else 0.5))
                (gain subGain) of
           Inl err \<Rightarrow> Inl err
         | Inr p \<Rightarrow>
             (let subGain = subGain\<lparr>gain := p\<rparr>;
                  subOsc = subOsc\<lparr>osc_start := Some time\<rparr>;
                  subOsc = subOsc\<lparr>osc_stop := Some (time + 0.6)\<rparr>
              in Inr (Sub (Gain subGain) [Sub (Oscillator subOsc) []])))"

text \<open>Kick, layer 2 (body, pitch envelope): \<open>bodyOsc \<rightarrow> bodyGain \<rightarrow> ratInput\<close>.\<close>

definition kickBody :: "real \<Rightarrow> real \<Rightarrow> bool \<Rightarrow> real \<Rightarrow> real \<Rightarrow> error + subgraph" where
  "kickBody time masterVol isModded tune' baseFreq =
     (let bodyOsc = createOscillator;
          bodyGain = createGain;
          bodyOsc = bodyOsc\<lparr>osc_type := Sine\<rparr>;
          startPitch = (if isModded then 300 + (tune' * 100) else 180 + (tune' * 60));
          endPitch = baseFreq;
          pitchTime = (if isModded then 0.04 else 0.08);
          bodyOsc = osc_frequency_update (setValueAtTime startPitch time) bodyOsc
      in case exponentialRampToValueAtTime endPitch (time + pitchTime) (osc_frequency bodyOsc) of
           Inl err \<Rightarrow> Inl err
         | Inr f \<Rightarrow>
             (let bodyOsc = bodyOsc\<lparr>osc_frequency := f\<rparr>;
                  bodyGain = gain_update
                    (setValueAtTime (masterVol * (if isModded then 1.2 else 0.9)) time) bodyGain
              in case exponentialRampToValueAtTime 0.001
                        (time + (if isModded then 0.25 else 0.35)) (gain bodyGain) of
                   Inl err \<Rightarrow> Inl err
                 | Inr p \<Rightarrow>
                     (let bodyGain = bodyGain\<lparr>gain := p\<rparr>;
                          bodyOsc = bodyOsc\<lparr>osc_start := Some time\<rparr>;
                          bodyOsc = bodyOsc\<lparr>osc_stop := Some (time + 0.4)\<rparr>
                      in Inr (Sub (Gain bodyGain) [Sub (Oscillator bodyOsc) []]))))"

text \<open>Kick, layer 3 (click): \<open>clickOsc \<rightarrow> clickFilter \<rightarrow> clickGain \<rightarrow> ratInput\<close>.\<close>

definition kickClick :: "real \<Rightarrow> real \<Rightarrow> bool \<Rightarrow> error + subgraph" where
  "kickClick time masterVol isModded =
     (let clickOsc = createOscillator;
          clickGain = createGain;
          clickFilter = createBiquadFilter;
          clickOsc = clickOsc\<lparr>osc_type := (if isModded then Sawtooth else Square)\<rparr>;
          clickOsc = osc_frequency_update
            (setValueAtTime (if isModded then 120 else 80) time) clickOsc
      in case exponentialRampToValueAtTime 40 (time + 0.02) (osc_frequency clickOsc) of
           Inl err \<Rightarrow> Inl err
         | Inr f \<Rightarrow>
             (let clickOsc = clickOsc\<lparr>osc_frequency := f\<rparr>;
                  clickFilter = clickFilter\<lparr>bq_type := Highpass\<rparr>;
                  clickFilter = bq_frequency_update
                    (setValue (if isModded then 100 else 60)) clickFilter;
                  clickFilter = bq_Q_update (setValue 1) clickFilter;
                  clickGain = gain_update
                    (setValueAtTime (masterVol * (if isModded then 0.5 else 0.3)) time) clickGain
              in case exponentialRampToValueAtTime 0.001 (time + 0.03) (gain clickGain) of
                   Inl err \<Rightarrow> Inl err
                 | Inr p \<Rightarrow>
                     (let clickGain = clickGain\<lparr>gain := p\<rparr>;
                          clickOsc = clickOsc\<lparr>osc_start := Some time\<rparr>;
                          clickOsc = clickOsc\<lparr>osc_stop := Some (time + 0.05)\<rparr>
                      in Inr (Sub (Gain clickGain)
                               [Sub (BiquadFilter clickFilter) [Sub (Oscillator clickOsc) []]]))))"

text \<open>
  Kick, optional noise transient:
  \<open>noiseSrc \<rightarrow> noiseHP \<rightarrow> noiseLP \<rightarrow> noiseGain \<rightarrow> ratInput\<close>; the source is started and
  no stop is scheduled.
\<close>

definition kickNoise :: "real \<Rightarrow> real \<Rightarrow> real list \<Rightarrow> error + subgraph" where
  "kickNoise time masterVol noiseBuffer =
     (let noiseSrc = createBufferSource;
          noiseGain = createGain;
          noiseHP = createBiquadFilter;
          noiseLP = createBiquadFilter;
          noiseSrc = noiseSrc\<lparr>src_buffer := Some noiseBuffer\<rparr>;
          noiseHP = noiseHP\<lparr>bq_type := Highpass\<rparr>;
          noiseHP = bq_frequency_update (setValue 500) noiseHP;
          noiseLP = noiseLP\<lparr>bq_type := Lowpass\<rparr>;
          noiseLP = bq_frequency_update (setValue 2000) noiseLP;
          noiseGain = gain_update (setValueAtTime (masterVol * 0.2) time) noiseGain
      in case exponentialRampToValueAtTime 0.001 (time + 0.015) (gain noiseGain) of
           Inl err \<Rightarrow> Inl err
         | Inr p \<Rightarrow>
             (let noiseGain = noiseGain\<lparr>gain := p\<rparr>;
                  noiseSrc = noiseSrc\<lparr>src_start := Some time\<rparr>
              in Inr (Sub (Gain noiseGain)
                       [Sub (BiquadFilter noiseLP)
                          [Sub (BiquadFilter noiseHP) [Sub (BufferSource noiseSrc) []]]])))"

definition triggerKick ::
  "real \<Rightarrow> DrumVoiceConfig \<Rightarrow> random_source \<Rightarrow> DrumEngine
     \<Rightarrow> DrumEngine \<times> random_source \<times> error option" where
  "triggerKick time config rnd eng =
     (let vel = velocity config / 127;
          masterVol = volume config * vel;
          isModded = kickModEnabled eng;
          baseFreq = 35 + (tune config * 20)
      in case kickSub time masterVol isModded baseFreq of
           Inl err \<Rightarrow> (eng, rnd, Some err)
         | Inr sub \<Rightarrow>
             (let eng = connect_ratInput sub eng
              in case kickBody time masterVol isModded (tune config) baseFreq of
                   Inl err \<Rightarrow> (eng, rnd, Some err)
                 | Inr body \<Rightarrow>
                     (let eng = connect_ratInput body eng
                      in case kickClick time masterVol isModded of
                           Inl err \<Rightarrow> (eng, rnd, Some err)
                         | Inr click \<Rightarrow>
                             (let eng = connect_ratInput click eng
                              in if isModded
                                 then (case createNoiseBuffer (sampleRate (ctx eng)) rnd 0.02 of
                                         (noiseBuffer, rnd) \<Rightarrow>
                                           (case kickNoise time masterVol noiseBuffer of
                                              Inl err \<Rightarrow> (eng, rnd, Some err)
                                            | Inr noise \<Rightarrow>
                                                (connect_ratInput noise eng, rnd, None)))
                                 else (eng, rnd, None)))))"

text \<open>Snare, layer 1 (body low): \<open>bodyLow \<rightarrow> bodyLowGain \<rightarrow> ratInput\<close>.\<close>

definition snareBodyLow :: "real \<Rightarrow> real \<Rightarrow> real \<Rightarrow> error + subgraph" where
  "snareBodyLow time masterVol bodyFreq =
     (let bodyLow = createOscillator;
          bodyLowGain = createGain;
          bodyLow = bodyLow\<lparr>osc_type := Sine\<rparr>;
          bodyLow = osc_frequency_update (setValueAtTime (bodyFreq * 0.8) time) bodyLow;
          bodyLowGain = gain_update (setValueAtTime (masterVol * 0.5) time) bodyLowGain
      in case exponentialRampToValueAtTime 0.001 (time + 0.15) (gain bodyLowGain) of
           Inl err \<Rightarrow> Inl err
         | Inr p \<Rightarrow>
             (let bodyLowGain = bodyLowGain\<lparr>gain := p\<rparr>;
                  bodyLow = bodyLow\<lparr>osc_start := Some time\<rparr>;
                  bodyLow = bodyLow\<lparr>osc_stop := Some (time + 0.2)\<rparr>
              in Inr (Sub (Gain bodyLowGain) [Sub (Oscillator bodyLow) []])))"

text \<open>Snare, layer 2 (body high): \<open>bodyHigh \<rightarrow> bodyHighGain \<rightarrow> ratInput\<close>.\<close>

definition snareBodyHigh :: "real \<Rightarrow> real \<Rightarrow> real \<Rightarrow> error + subgraph" where
  "snareBodyHigh time masterVol bodyFreq =
     (let bodyHigh = createOscillator;
          bodyHighGain = createGain;
          bodyHigh = bodyHigh\<lparr>osc_type := Triangle\<rparr>;
          bodyHigh = osc_frequency_update (setValueAtTime (bodyFreq * 2) time) bodyHigh
      in case exponentialRampToValueAtTime (bodyFreq * 1.2) (time + 0.05)
                (osc_frequency bodyHigh) of
           Inl err \<Rightarrow> Inl err
         | Inr f \<Rightarrow>
             (let bodyHigh = bodyHigh\<lparr>osc_frequency := f\<rparr>;
                  bodyHighGain = gain_update (setValueAtTime (masterVol * 0.4) time) bodyHighGain
              in case exponentialRampToValueAtTime 0.001 (time + 0.1) (gain bodyHighGain) of
                   Inl err \<Rightarrow> Inl err
                 | Inr p \<Rightarrow>
                     (let bodyHighGain = bodyHighGain\<lparr>gain := p\<rparr>;
                          bodyHigh = bodyHigh\<lparr>osc_start := Some time\<rparr>;
                          bodyHigh = bodyHigh\<lparr>osc_stop := Some (time + 0.15)\<rparr>
                      in Inr (Sub (Gain bodyHighGain) [Sub (Oscillator bodyHigh) []]))))"

text \<open>
  Snare, layer 3 (wires):
  \<open>noiseSrc \<rightarrow> noiseHP \<rightarrow> noiseLP \<rightarrow> noiseGain \<rightarrow> ratInput\<close>.
\<close>

definition snareWires :: "real \<Rightarrow> real \<Rightarrow> real \<Rightarrow> real list \<Rightarrow> error + subgraph" where
  "snareWires time masterVol tune' noiseBuffer =
     (let noiseSrc = createBufferSource;
          noiseGain = createGain;
          noiseHP = createBiquadFilter;
          noiseLP = createBiquadFilter;
          noiseSrc = noiseSrc\<lparr>src_buffer := Some noiseBuffer\<rparr>;
          noiseHP = noiseHP\<lparr>bq_type := Highpass\<rparr>;
          noiseHP = bq_frequency_update (setValue 2000) noiseHP;
          noiseHP = bq_Q_update (setValue 0.5) noiseHP;
          noiseLP = noiseLP\<lparr>bq_type := Lowpass\<rparr>;
          noiseLP = bq_frequency_update (setValue (8000 + (tune' * 4000))) noiseLP;
          noiseLP = bq_Q_update (setValue 0.5) noiseLP;
          noiseGain = gain_update (setValueAtTime (masterVol * 0.6) time) noiseGain
      in case exponentialRampToValueAtTime (masterVol * 0.1) (time + 0.08) (gain noiseGain) of
           Inl err \<Rightarrow> Inl err
         | Inr p \<Rightarrow>
             (case exponentialRampToValueAtTime 0.001 (time + 0.25) p of
                Inl err \<Rightarrow> Inl err
              | Inr p \<Rightarrow>
                  (let noiseGain = noiseGain\<lparr>gain := p\<rparr>;
                       noiseSrc = noiseSrc\<lparr>src_start := Some time\<rparr>;
                       noiseSrc = noiseSrc\<lparr>src_stop := Some (time + 0.35)\<rparr>
                   in Inr (Sub (Gain noiseGain)
                            [Sub (BiquadFilter noiseLP)
                               [Sub (BiquadFilter noiseHP) [Sub (BufferSource noiseSrc) []]]]))))"

text \<open>
  Snare, layer 4 (transient click): \<open>clickSrc \<rightarrow> clickHP \<rightarrow> clickGain \<rightarrow> ratInput\<close>;
  the source is started and no stop is scheduled.
\<close>

definition snareClick :: "real \<Rightarrow> real \<Rightarrow> real list \<Rightarrow> error + subgraph" where
  "snareClick time masterVol clickBuffer =
     (let clickSrc = createBufferSource;
          clickGain = createGain;
          clickHP = createBiquadFilter;
          clickSrc = clickSrc\<lparr>src_buffer := Some clickBuffer\<rparr>;
          clickHP = clickHP\<lparr>bq_type := Highpass\<rparr>;
          clickHP = bq_frequency_update (setValue 1000) clickHP;
          clickGain = gain_update (setValueAtTime (masterVol * 0.3) time) clickGain
      in case exponentialRampToValueAtTime 0.001 (time + 0.01) (gain clickGain) of
           Inl err \<Rightarrow> Inl err
         | Inr p \<Rightarrow>
             (let clickGain = clickGain\<lparr>gain := p\<rparr>;
                  clickSrc = clickSrc\<lparr>src_start := Some time\<rparr>
              in Inr (Sub (Gain clickGain)
                       [Sub (BiquadFilter clickHP) [Sub (BufferSource clickSrc) []]])))"

definition triggerSnare ::
  "real \<Rightarrow> DrumVoiceConfig \<Rightarrow> random_source \<Rightarrow> DrumEngine
     \<Rightarrow> DrumEngine \<times> random_source \<times> error option" where
  "triggerSnare time config rnd eng =
     (let vel = velocity config / 127;
          masterVol = volume config * vel;
          bodyFreq = 150 + (tune config * 100)
      in case snareBodyLow time masterVol bodyFreq of
           Inl err \<Rightarrow> (eng, rnd, Some err)
         | Inr low \<Rightarrow>
             (let eng = connect_ratInput low eng
              in case snareBodyHigh time masterVol bodyFreq of
                   Inl err \<Rightarrow> (eng, rnd, Some err)
                 | Inr high \<Rightarrow>
                     (let eng = connect_ratInput high eng
                      in case createNoiseBuffer (sampleRate (ctx eng)) rnd 0.3 of
                           (noiseBuffer, rnd) \<Rightarrow>
                             (case snareWires time masterVol (tune config) noiseBuffer of
                                Inl err \<Rightarrow> (eng, rnd, Some err)
                              | Inr wires \<Rightarrow>
                                  (let eng = connect_ratInput wires eng
                                   in case createNoiseBuffer (sampleRate (ctx eng)) rnd 0.01 of
                                        (clickBuffer, rnd) \<Rightarrow>
                                          (case snareClick time masterVol clickBuffer of
                                             Inl err \<Rightarrow> (eng, rnd, Some err)
                                           | Inr click \<Rightarrow>
                                               (connect_ratInput click eng, rnd, None)))))))"

text \<open>Non-harmonic frequency ratios of the hi-hat's oscillator bank.\<close>

definition ratios :: "real list" where
  "ratios = [1.0, 1.34, 1.67, 1.91, 2.18, 2.41]"

text \<open>
  The callback of \<open>ratios.forEach((ratio, i) => ...)\<close>, over the remaining ratios:
  \<open>osc \<rightarrow> oscGain \<rightarrow> mixGain\<close>, one call of \<open>Math.random()\<close> for each oscillator.
\<close>

fun hatOscillators ::
  "real \<Rightarrow> real \<Rightarrow> bool \<Rightarrow> real list \<Rightarrow> nat \<Rightarrow> random_source \<Rightarrow> subgraph list \<times> random_source" where
  "hatOscillators time baseFreq isOpen [] i rnd = ([], rnd)"
| "hatOscillators time baseFreq isOpen (ratio # rest) i rnd =
     (let osc = createOscillator;
          oscGain = createGain;
          osc = osc\<lparr>osc_type := Square\<rparr>;
          osc = osc_frequency_update (setValue (baseFreq * ratio)) osc;
          osc = osc_detune_update (setValue ((rnd 0 - 0.5) * 20)) osc;
          rnd = (\<lambda>n. rnd (n + 1));
          oscGain = gain_update (setValue (0.15 - (real i * 0.02))) oscGain;
          osc = osc\<lparr>osc_start := Some time\<rparr>;
          osc = osc\<lparr>osc_stop := Some (time + (if isOpen then 0.5 else 0.1))\<rparr>
      in case hatOscillators time baseFreq isOpen rest (i + 1) rnd of
           (branches, rnd) \<Rightarrow> (Sub (Gain oscGain) [Sub (Oscillator osc) []] # branches, rnd))"

definition triggerHiHat ::
  "real \<Rightarrow> DrumVoiceConfig \<Rightarrow> bool \<Rightarrow> random_source \<Rightarrow> DrumEngine
     \<Rightarrow> DrumEngine \<times> random_source \<times> error option" where
  "triggerHiHat time config isOpen rnd eng =
     (let vel = velocity config / 127;
          masterVol = volume config * vel;
          baseFreq = 300 + (tune config * 400);
          mixGain = createGain
      in case hatOscillators time baseFreq isOpen ratios 0 rnd of
           (branches, rnd) \<Rightarrow>
             (let bp = createBiquadFilter;
                  bp = bp\<lparr>bq_type := Bandpass\<rparr>;
                  bp = bq_frequency_update (setValue (8000 + (tune config * 4000))) bp;
                  bp = bq_Q_update (setValue 1.5) bp;
                  hp = createBiquadFilter;
                  hp = hp\<lparr>bq_type := Highpass\<rparr>;
                  hp = bq_frequency_update (setValue 6000) hp;
                  hp = bq_Q_update (setValue 0.5) hp;
                  envGain = createGain;
                  decayTime = (if isOpen then 0.35 else 0.05);
                  envGain = gain_update (setValueAtTime (masterVol * 0.5) time) envGain
              in case exponentialRampToValueAtTime 0.001 (time + decayTime) (gain envGain) of
                   Inl err \<Rightarrow> (eng, rnd, Some err)
                 | Inr p \<Rightarrow>
                     (let envGain = envGain\<lparr>gain := p\<rparr>
                      in (connect_ratInput
                            (Sub (Gain envGain)
                               [Sub (BiquadFilter hp)
                                  [Sub (BiquadFilter bp) [Sub (Gain mixGain) branches]]])
                            eng,
                          rnd, None))))"

text \<open>
  One clap burst: \<open>noiseSrc \<rightarrow> bp \<rightarrow> noiseGain \<rightarrow> ratInput\<close>; the source is started
  and no stop is scheduled.
\<close>

definition triggerClapBurst ::
  "real \<Rightarrow> real \<Rightarrow> real \<Rightarrow> random_source \<Rightarrow> DrumEngine
     \<Rightarrow> DrumEngine \<times> random_source \<times> error option" where
  "triggerClapBurst time volume' tune' rnd eng =
     (case createNoiseBuffer (sampleRate (ctx eng)) rnd 0.02 of
        (noiseBuffer, rnd) \<Rightarrow>
          (let noiseSrc = createBufferSource;
               noiseGain = createGain;
               bp = createBiquadFilter;
               noiseSrc = noiseSrc\<lparr>src_buffer := Some noiseBuffer\<rparr>;
               bp = bp\<lparr>bq_type := Bandpass\<rparr>;
               bp = bq_frequency_update (setValue (1200 + (tune' * 800))) bp;
               bp = bq_Q_update (setValue 2) bp;
               noiseGain = gain_update (setValueAtTime volume' time) noiseGain
           in case exponentialRampToValueAtTime 0.001 (time + 0.015) (gain noiseGain) of
                Inl err \<Rightarrow> (eng, rnd, Some err)
              | Inr p \<Rightarrow>
                  (let noiseGain = noiseGain\<lparr>gain := p\<rparr>;
                       noiseSrc = noiseSrc\<lparr>src_start := Some time\<rparr>
                   in (connect_ratInput
                         (Sub (Gain noiseGain)
                            [Sub (BiquadFilter bp) [Sub (BufferSource noiseSrc) []]])
                         eng,
                       rnd, None))))"

text \<open>The clap's tail: \<open>noiseSrc \<rightarrow> bp \<rightarrow> hp \<rightarrow> noiseGain \<rightarrow> ratInput\<close>.\<close>

definition triggerClapTail ::
  "real \<Rightarrow> real \<Rightarrow> real \<Rightarrow> random_source \<Rightarrow> DrumEngine
     \<Rightarrow> DrumEngine \<times> random_source \<times> error option" where
  "triggerClapTail time volume' tune' rnd eng =
     (case createNoiseBuffer (sampleRate (ctx eng)) rnd 0.25 of
        (noiseBuffer, rnd) \<Rightarrow>
          (let noiseSrc = createBufferSource;
               noiseGain = createGain;
               bp = createBiquadFilter;
               hp = createBiquadFilter;
               noiseSrc = noiseSrc\<lparr>src_buffer := Some noiseBuffer\<rparr>;
               bp = bp\<lparr>bq_type := Bandpass\<rparr>;
               bp = bq_frequency_update (setValue (1500 + (tune' * 1000))) bp;
               bp = bq_Q_update (setValue 1) bp;
               hp = hp\<lparr>bq_type := Highpass\<rparr>;
               hp = bq_frequency_update (setValue 800) hp;
               noiseGain = gain_update (setValueAtTime volume' time) noiseGain
           in case exponentialRampToValueAtTime 0.001 (time + 0.2) (gain noiseGain) of
                Inl err \<Rightarrow> (eng, rnd, Some err)
              | Inr p \<Rightarrow>
                  (let noiseGain = noiseGain\<lparr>gain := p\<rparr>;
                       noiseSrc = noiseSrc\<lparr>src_start := Some time\<rparr>;
                       noiseSrc = noiseSrc\<lparr>src_stop := Some (time + 0.3)\<rparr>
                   in (connect_ratInput
                         (Sub (Gain noiseGain)
                            [Sub (BiquadFilter hp)
                               [Sub (BiquadFilter bp) [Sub (BufferSource noiseSrc) []]]])
                         eng,
                       rnd, None))))"

definition numBursts :: nat where
  "numBursts = 4"

definition burstSpacing :: real where
  "burstSpacing = 0.012"

text \<open>The \<open>for\<close> loop of \<open>triggerClap\<close>, from burst \<open>i\<close> on.\<close>

function triggerClap_loop ::
  "real \<Rightarrow> real \<Rightarrow> real \<Rightarrow> nat \<Rightarrow> random_source \<Rightarrow> DrumEngine
     \<Rightarrow> DrumEngine \<times> random_source \<times> error option" where
  "triggerClap_loop time masterVol tune' i rnd eng =
     (if i < numBursts
      then (let burstTime = time + (real i * burstSpacing);
                burstVol = (if i < numBursts - 1 then masterVol * 0.4 else masterVol * 0.8)
            in case triggerClapBurst burstTime burstVol tune' rnd eng of
                 (eng, rnd, Some err) \<Rightarrow> (eng, rnd, Some err)
               | (eng, rnd, None) \<Rightarrow> triggerClap_loop time masterVol tune' (i + 1) rnd eng)
      else (eng, rnd, None))"
  by pat_completeness auto
termination
  by (relation "measure (\<lambda>(time, masterVol, tune', i, rnd, eng). numBursts - i)") auto

declare triggerClap_loop.simps [simp del]

definition triggerClap ::
  "real \<Rightarrow> DrumVoiceConfig \<Rightarrow> random_source \<Rightarrow> DrumEngine
     \<Rightarrow> DrumEngine \<times> random_source \<times> error option" where
  "triggerClap time config rnd eng =
     (let vel = velocity config / 127;
          masterVol = volume config * vel
      in case triggerClap_loop time masterVol (tune config) 0 rnd eng of
           (eng, rnd, Some err) \<Rightarrow> (eng, rnd, Some err)
         | (eng, rnd, None) \<Rightarrow>
             triggerClapTail (time + 0.04) (masterVol * 0.3) (tune config) rnd eng)"

text \<open>The dispatch of \<open>trigger\<close>; the hi-hat is called without \<open>isOpen\<close>, which defaults to false.\<close>

fun trigger ::
  "DrumType \<Rightarrow> real \<Rightarrow> DrumVoiceConfig \<Rightarrow> random_source \<Rightarrow> DrumEngine
     \<Rightarrow> DrumEngine \<times> random_source \<times> error option" where
  "trigger KICK time config rnd eng = triggerKick time config rnd eng"
| "trigger SNARE time config rnd eng = triggerSnare time config rnd eng"
| "trigger HAT time config rnd eng = triggerHiHat time config False rnd eng"
| "trigger CLAP time config rnd eng = triggerClap time config rnd eng"

subsection \<open>Observing a trigger\<close>

text \<open>The sub-graphs that were connected into \<open>ratInput\<close> between two engine states.\<close>

definition new_voices :: "DrumEngine \<Rightarrow> DrumEngine \<Rightarrow> subgraph list" where
  "new_voices eng eng' = drop (length (ratInput_inputs eng)) (ratInput_inputs eng')"

text \<open>The source nodes (oscillators and buffer sources) of a sub-graph.\<close>

fun sources :: "subgraph \<Rightarrow> node list" where
  "sources (Sub n inputs) =
     (case n of Oscillator osc \<Rightarrow> [n] | BufferSource src \<Rightarrow> [n] | Gain g \<Rightarrow> []
      | BiquadFilter f \<Rightarrow> [])
     @ concat (map sources inputs)"

text \<open>
  What is scheduled on a source node: its start and its stop, both as an offset from the
  trigger time, and for a buffer source the number of frames of the buffer it plays.
\<close>

datatype scheduled =
    ScheduledOscillator "real option" "real option"
  | ScheduledBuffer "real option" "real option" "nat option"
  | NotASource

definition offset_from :: "real \<Rightarrow> real option \<Rightarrow> real option" where
  "offset_from time t = map_option (\<lambda>t. t - time) t"

fun source_schedule :: "real \<Rightarrow> node \<Rightarrow> scheduled" where
  "source_schedule time (Oscillator osc) =
     ScheduledOscillator (offset_from time (osc_start osc)) (offset_from time (osc_stop osc))"
| "source_schedule time (BufferSource src) =
     ScheduledBuffer (offset_from time (src_start src)) (offset_from time (src_stop src))
       (map_option length (src_buffer src))"
| "source_schedule time (Gain g) = NotASource"
| "source_schedule time (BiquadFilter f) = NotASource"

fun source_frequency :: "node \<Rightarrow> automation list" where
  "source_frequency (Oscillator osc) = param_events (osc_frequency osc)"
| "source_frequency n = []"

fun is_BufferSource :: "node \<Rightarrow> bool" where
  "is_BufferSource (BufferSource src) = True"
| "is_BufferSource n = False"

text \<open>The gain automation of the node a sub-graph ends in: the envelope of a layer.\<close>

fun envelope :: "subgraph \<Rightarrow> automation list" where
  "envelope (Sub (Gain g) inputs) = param_events (gain g)"
| "envelope (Sub n inputs) = []"

text \<open>Type and cutoff (the \<open>frequency.value\<close> set) of the filters of a sub-graph.\<close>

fun filters :: "subgraph \<Rightarrow> (BiquadFilterType \<times> real) list" where
  "filters (Sub n inputs) =
     (case n of BiquadFilter f \<Rightarrow> [(bq_type f, param_value (bq_frequency f))]
      | Oscillator osc \<Rightarrow> [] | BufferSource src \<Rightarrow> [] | Gain g \<Rightarrow> [])
     @ concat (map filters inputs)"

text \<open>The exception a trigger ended with, if any.\<close>

definition thrown :: "DrumEngine \<times> random_source \<times> error option \<Rightarrow> error option" where
  "thrown r = snd (snd r)"

subsection \<open>The documented parameter domains\<close>



subsection \<open>Observing a parameter\<close>

text \<open>
  The value an automation call heads for, and the target of a parameter: that of the call
  made last, or the \<open>value\<close> attribute when no automation has been scheduled.
\<close>

fun target_of :: "automation \<Rightarrow> real" where
  "target_of (SetValueAtTime v t) = v"
| "target_of (LinearRampToValueAtTime v t) = v"
| "target_of (ExponentialRampToValueAtTime v t) = v"
| "target_of (SetTargetAtTime v t c) = v"

definition param_target :: "AudioParam \<Rightarrow> real" where
  "param_target p =
     (if param_events p = [] then param_value p else target_of (last (param_events p)))"

subsection \<open>Example inputs\<close>

text \<open>
  Concrete inputs for the closed examples below: an audio context at 44100 Hz, a random
  source whose numbers lie in \<open>[0, 1)\<close>, an in-range voice configuration, and the empty
  partial configuration \<open>{}\<close>.
\<close>

definition example_ctx :: AudioContext where
  "example_ctx = \<lparr>currentTime = 0, sampleRate = 44100\<rparr>"

definition example_random :: random_source where
  "example_random n = 1 / real (n + 2)"

definition example_config :: DrumVoiceConfig where
  "example_config = \<lparr>volume = 1, tune = 0.5, decay = 0.5, tone = 0.5, velocity = 127\<rparr>"

definition emptyPartial :: PartialRatConfig where
  "emptyPartial = \<lparr>distortion_opt = None, filter_opt = None, volume_opt = None\<rparr>"

text \<open>
  The targets of the effects chain: those of the pre-gain, the filter cutoff and the
  post-gain, and the waveshaper's curve.
\<close>

definition chain_targets :: "DrumEngine \<Rightarrow> real \<times> real list option \<times> real \<times> real" where
  "chain_targets eng =
     (param_target (ratPreGain_gain eng), ratWaveshaper_curve eng,
      param_target (ratFilter_frequency eng), param_target (ratPostGain_gain eng))"

section \<open>Properties\<close>

subsection \<open>The curve loop\<close>

lemma makeRatCurve_loop_length:
  "length (makeRatCurve_loop k i curve) = length curve"
proof (induction k i curve rule: makeRatCurve_loop.induct)
  case (1 k i curve)
  show ?case
  proof (cases "i < samples")
    case True
    with 1 show ?thesis by (simp add: makeRatCurve_loop.simps [of k i curve])
  next
    case False
    then show ?thesis by (simp add: makeRatCurve_loop.simps [of k i curve])
  qed
qed

lemma makeRatCurve_loop_nth:
  "length curve = samples \<Longrightarrow> j < samples \<Longrightarrow>
   makeRatCurve_loop k i curve ! j = (if i \<le> j then curve_entry k j else curve ! j)"
proof (induction k i curve rule: makeRatCurve_loop.induct)
  case (1 k i curve)
  show ?case
  proof (cases "i < samples")
    case True
    have "makeRatCurve_loop k i curve ! j
            = makeRatCurve_loop k (i + 1) (curve[i := curve_entry k i]) ! j"
      using True by (simp add: makeRatCurve_loop.simps [of k i curve])
    also have "\<dots> = (if i + 1 \<le> j then curve_entry k j
                      else (curve[i := curve_entry k i]) ! j)"
      using 1 True by simp
    also have "\<dots> = (if i \<le> j then curve_entry k j else curve ! j)"
    proof (cases "i = j")
      case True
      with 1(2) \<open>i < samples\<close> show ?thesis by simp
    next
      case False
      then show ?thesis by auto
    qed
    finally show ?thesis .
  next
    case False
    with 1(3) show ?thesis by (simp add: makeRatCurve_loop.simps [of k i curve])
  qed
qed

lemma makeRatCurve_length: "length (makeRatCurve amount) = samples"
  by (simp add: makeRatCurve_def makeRatCurve_loop_length)

lemma makeRatCurve_nth:
  "i < samples \<Longrightarrow> makeRatCurve amount ! i = curve_entry (amount * 50 + 1) i"
  by (simp add: makeRatCurve_def makeRatCurve_loop_nth)

subsection \<open>The noise loop\<close>

lemma createNoiseBuffer_loop_length:
  "length (fst (createNoiseBuffer_loop len i rnd data)) = length data"
proof (induction len i rnd data rule: createNoiseBuffer_loop.induct)
  case (1 len i rnd data)
  show ?case
  proof (cases "int i < len")
    case True
    with 1 show ?thesis by (simp add: createNoiseBuffer_loop.simps [of len i rnd data])
  next
    case False
    then show ?thesis by (simp add: createNoiseBuffer_loop.simps [of len i rnd data])
  qed
qed

lemma createNoiseBuffer_loop_nth:
  "int (length data) = len \<Longrightarrow> j < length data \<Longrightarrow>
   fst (createNoiseBuffer_loop len i rnd data) ! j
     = (if i \<le> j then rnd (j - i) * 2 - 1 else data ! j)"
proof (induction len i rnd data rule: createNoiseBuffer_loop.induct)
  case (1 len i rnd data)
  show ?case
  proof (cases "int i < len")
    case True
    let ?d = "data[i := rnd 0 * 2 - 1]"
    have "fst (createNoiseBuffer_loop len i rnd data) ! j
            = fst (createNoiseBuffer_loop len (i + 1) (\<lambda>n. rnd (n + 1)) ?d) ! j"
      using True by (simp add: createNoiseBuffer_loop.simps [of len i rnd data])
    also have "\<dots> = (if i + 1 \<le> j then rnd (j - (i + 1) + 1) * 2 - 1 else ?d ! j)"
      using 1 True by simp
    also have "\<dots> = (if i \<le> j then rnd (j - i) * 2 - 1 else data ! j)"
    proof (cases "i = j")
      case True
      with 1(3) show ?thesis by simp
    next
      case False
      then show ?thesis by (auto simp: Suc_diff_Suc)
    qed
    finally show ?thesis .
  next
    case False
    with 1(2,3) show ?thesis by (simp add: createNoiseBuffer_loop.simps [of len i rnd data])
  qed
qed

lemma createNoiseBuffer_loop_rest:
  "int (length data) = len \<Longrightarrow> i \<le> length data \<Longrightarrow>
   snd (createNoiseBuffer_loop len i rnd data) = (\<lambda>n. rnd (n + (length data - i)))"
proof (induction len i rnd data rule: createNoiseBuffer_loop.induct)
  case (1 len i rnd data)
  show ?case
  proof (cases "int i < len")
    case True
    then have lt: "i < length data" using 1(2) by simp
    have "snd (createNoiseBuffer_loop len i rnd data)
            = snd (createNoiseBuffer_loop len (i + 1) (\<lambda>n. rnd (n + 1)) (data[i := rnd 0 * 2 - 1]))"
      using True by (simp add: createNoiseBuffer_loop.simps [of len i rnd data])
    also have "\<dots> = (\<lambda>n. rnd (n + (length data - (i + 1)) + 1))"
      using 1 True lt by simp
    also have "\<dots> = (\<lambda>n. rnd (n + (length data - i)))"
      using lt by (simp add: Suc_diff_Suc)
    finally show ?thesis .
  next
    case False
    have "snd (createNoiseBuffer_loop len i rnd data) = rnd"
      using False by (simp add: createNoiseBuffer_loop.simps [of len i rnd data])
    moreover from False 1(2,3) have "length data - i = 0" by simp
    ultimately show ?thesis by simp
  qed
qed

lemma createNoiseBuffer_length:
  "length (fst (createNoiseBuffer sr rnd d)) = nat \<lceil>sr * d\<rceil>"
  by (simp add: createNoiseBuffer_def Let_def createNoiseBuffer_loop_length)

lemma createNoiseBuffer_nth:
  assumes "j < nat \<lceil>sr * d\<rceil>"
  shows "fst (createNoiseBuffer sr rnd d) ! j = rnd j * 2 - 1"
proof -
  let ?len = "\<lceil>sr * d\<rceil>"
  let ?data = "replicate (nat ?len) (0::real)"
  from assms have "0 \<le> ?len" by linarith
  then have "int (length ?data) = ?len" by simp
  moreover have "j < length ?data" using assms by simp
  ultimately have "fst (createNoiseBuffer_loop ?len 0 rnd ?data) ! j
      = (if 0 \<le> j then rnd (j - 0) * 2 - 1 else ?data ! j)"
    by (rule createNoiseBuffer_loop_nth)
  then show ?thesis by (simp add: createNoiseBuffer_def Let_def)
qed

lemma createNoiseBuffer_rest:
  "snd (createNoiseBuffer sr rnd d) = (\<lambda>n. rnd (n + nat \<lceil>sr * d\<rceil>))"
proof (cases "0 \<le> \<lceil>sr * d\<rceil>")
  case True
  let ?len = "\<lceil>sr * d\<rceil>"
  let ?data = "replicate (nat ?len) (0::real)"
  from True have "int (length ?data) = ?len" by simp
  then have "snd (createNoiseBuffer_loop ?len 0 rnd ?data)
      = (\<lambda>n. rnd (n + (length ?data - 0)))"
    by (rule createNoiseBuffer_loop_rest) simp
  then show ?thesis by (simp add: createNoiseBuffer_def Let_def)
next
  case False
  then show ?thesis
    by (simp add: createNoiseBuffer_def Let_def createNoiseBuffer_loop.simps [of _ 0])
qed

lemma createNoiseBuffer_data:
  "fst (createNoiseBuffer sr rnd d) = map (\<lambda>i. rnd i * 2 - 1) [0..<nat \<lceil>sr * d\<rceil>]"
  by (rule nth_equalityI) (simp_all add: createNoiseBuffer_length createNoiseBuffer_nth)

subsection \<open>Bounds on the hyperbolic tangent\<close>

lemma exp_4_gt_19: "(19::real) < exp 4"
proof -
  have "(5::real) \<le> exp 2"
    using exp_lower_Taylor_quadratic [of "2::real"] by simp
  then have "(5::real) * 5 \<le> exp 2 * exp 2"
    by (intro mult_mono) simp_all
  moreover have "exp 2 * exp 2 = exp (4::real)"
    by (simp flip: exp_add)
  ultimately show ?thesis by simp
qed

lemma tanh_gt_9_10:
  assumes "(2::real) \<le> x"
  shows "9 / 10 < tanh x"
proof -
  have "exp 4 \<le> exp (2 * x)" using assms by simp
  with exp_4_gt_19 have big: "19 < exp (2 * x)" by linarith
  have pos: "0 < exp (2 * x)" by simp
  have e: "exp (- 2 * x) = 1 / exp (2 * x)"
    using exp_minus [of "2 * x"] by (simp add: field_simps)
  have "exp (- 2 * x) < 1 / 19"
    unfolding e using big pos by (simp add: field_simps)
  moreover have "0 < exp (- 2 * x)" by simp
  ultimately have "9 / 10 * (1 + exp (- 2 * x)) < 1 - exp (- 2 * x)" by simp
  moreover have "0 < 1 + exp (- 2 * x)" by (simp add: add_pos_pos)
  ultimately have "9 / 10 < (1 - exp (- 2 * x)) / (1 + exp (- 2 * x))"
    by (simp add: pos_less_divide_eq)
  then show ?thesis by (simp add: tanh_real_altdef)
qed

lemma tanh_double_real:
  fixes b :: real
  shows "tanh (2 * b) = 2 * tanh b / (1 + (tanh b)\<^sup>2)"
proof -
  have c: "cosh b \<noteq> 0" using cosh_real_pos [of b] by simp
  have "tanh (b + b) = (tanh b + tanh b) / (1 + tanh b * tanh b)"
    using c c by (rule tanh_add)
  then show ?thesis by (simp add: power2_eq_square)
qed

lemma tanh_triple_real:
  fixes b :: real
  shows "tanh (3 * b) = (3 * tanh b + (tanh b) ^ 3) / (1 + 3 * (tanh b)\<^sup>2)"
proof -
  let ?t = "tanh b"
  have c1: "cosh b \<noteq> 0" using cosh_real_pos [of b] by simp
  have c2: "cosh (2 * b) \<noteq> 0" using cosh_real_pos [of "2 * b"] by simp
  have p: "0 < 1 + ?t\<^sup>2" by (simp add: add_pos_nonneg)
  have "tanh (2 * b + b) = (tanh (2 * b) + ?t) / (1 + tanh (2 * b) * ?t)"
    using c2 c1 by (rule tanh_add)
  also have "\<dots> = (2 * ?t / (1 + ?t\<^sup>2) + ?t) / (1 + 2 * ?t / (1 + ?t\<^sup>2) * ?t)"
    by (simp add: tanh_double_real)
  also have "\<dots> = (3 * ?t + ?t ^ 3) / (1 + 3 * ?t\<^sup>2)"
  proof -
    have n: "2 * ?t / (1 + ?t\<^sup>2) + ?t = (3 * ?t + ?t ^ 3) / (1 + ?t\<^sup>2)"
      using p by (simp add: field_simps power2_eq_square power3_eq_cube)
    have d: "1 + 2 * ?t / (1 + ?t\<^sup>2) * ?t = (1 + 3 * ?t\<^sup>2) / (1 + ?t\<^sup>2)"
      using p by (simp add: field_simps power2_eq_square)
    show ?thesis unfolding n d using p by simp
  qed
  finally show ?thesis by simp
qed

text \<open>
  For \<open>b > 0\<close> and \<open>t = tanh b\<close>: \<open>0.9 * tanh (3 b)\<close> against \<open>tanh (2 b)\<close> is decided by
  \<open>3 t\<^sup>2\<close> against 1.
\<close>

lemma clip_compare:
  fixes b :: real
  assumes "0 < b"
  shows "tanh (2 * b) \<le> tanh (3 * b) * 0.9 \<longleftrightarrow> 3 * (tanh b)\<^sup>2 \<le> 1"
proof -
  let ?t = "tanh b"
  define u where "u = ?t\<^sup>2"
  have t0: "0 < ?t" using assms by simp
  have t1: "?t < 1" by (rule tanh_real_lt_1)
  have u0: "0 < u" unfolding u_def using t0 by simp
  have "?t * ?t < 1 * 1" using t0 t1 by (intro mult_strict_mono) simp_all
  then have u1: "u < 1" by (simp add: u_def power2_eq_square)
  have t3: "?t ^ 3 = ?t * u" by (simp add: u_def power2_eq_square power3_eq_cube)
  have "tanh (2 * b) \<le> tanh (3 * b) * 0.9
      \<longleftrightarrow> 2 * ?t / (1 + u) \<le> (3 * ?t + ?t * u) / (1 + 3 * u) * 0.9"
    by (simp add: tanh_double_real tanh_triple_real t3 flip: u_def)
  also have "\<dots> \<longleftrightarrow> 2 * ?t * (1 + 3 * u) \<le> (3 * ?t + ?t * u) * 0.9 * (1 + u)"
    using u0 by (simp add: field_simps)
  also have "\<dots> \<longleftrightarrow> ?t * (2 * (1 + 3 * u)) \<le> ?t * ((3 + u) * 0.9 * (1 + u))"
    by (simp add: algebra_simps)
  also have "\<dots> \<longleftrightarrow> 2 * (1 + 3 * u) \<le> (3 + u) * 0.9 * (1 + u)"
    using t0 by (simp only: mult_le_cancel_left_pos)
  also have "\<dots> \<longleftrightarrow> 0 \<le> (1 - 3 * u) * (7 - 3 * u)"
    by (simp add: algebra_simps)
  also have "\<dots> \<longleftrightarrow> 0 \<le> 1 - 3 * u"
    using u1 by (simp add: zero_le_mult_iff)
  finally show ?thesis by (simp add: u_def)
qed

lemma tanh_small:
  fixes b :: real
  assumes "0 \<le> b" and "b \<le> 0.34"
  shows "3 * (tanh b)\<^sup>2 \<le> 1"
proof -
  let ?e = "exp (- 2 * b)"
  have "1 + (- 2 * b) \<le> ?e" by (rule exp_ge_add_one_self)
  with assms(2) have e: "0.32 \<le> ?e" by simp
  then have "1 - ?e \<le> 0.57 * (1 + ?e)" by simp
  moreover have p: "0 < 1 + ?e" by (simp add: add_pos_pos)
  ultimately have "(1 - ?e) / (1 + ?e) \<le> 0.57" by (simp add: pos_divide_le_eq)
  then have t: "tanh b \<le> 0.57" by (simp add: tanh_real_altdef)
  have t0: "0 \<le> tanh b" using assms(1) by simp
  from t0 t have "tanh b * tanh b \<le> 0.57 * 0.57" by (intro mult_mono) simp_all
  then show ?thesis by (simp add: power2_eq_square)
qed

subsection \<open>Table inputs and entries\<close>

lemma curve_x_mirror:
  assumes "0 < i" and "i < 44100"
  shows "curve_x (44100 - i) = - curve_x i"
proof -
  from assms have "real (44100 - i) = 44100 - real i" by simp
  then show ?thesis by (simp add: curve_x_def samples_def field_simps)
qed

lemma curve_entry_pos:
  assumes "0 < curve_x i"
  shows "curve_entry 51 i = tanh (curve_x i * 51 * 1.2) * 0.9"
  using assms by (simp add: curve_entry_def Let_def)

lemma curve_entry_neg:
  assumes "curve_x i < 0"
  shows "curve_entry 51 i = tanh (curve_x i * 51 * 0.8)"
  using assms by (simp add: curve_entry_def Let_def)

subsection \<open>What updateRat writes\<close>

lemma updateRat_ratConfig: "ratConfig (updateRat config eng) = assign (ratConfig eng) config"
  by (simp add: updateRat_def Let_def)

lemma updateRat_ctx: "ctx (updateRat config eng) = ctx eng"
  by (simp add: updateRat_def Let_def)

lemma updateRat_filter:
  "ratFilter_frequency (updateRat config eng) =
     setTargetAtTime (200 * ((20000 / 200) powr filter_rat (assign (ratConfig eng) config)))
       (currentTime (ctx eng)) 0.05 (ratFilter_frequency eng)"
  by (simp add: updateRat_def Let_def)

lemma updateRat_preGain:
  "ratPreGain_gain (updateRat config eng) =
     setTargetAtTime (1 + distortion (assign (ratConfig eng) config) * 10)
       (currentTime (ctx eng)) 0.05 (ratPreGain_gain eng)"
  by (simp add: updateRat_def Let_def)

lemma updateRat_postGain:
  "ratPostGain_gain (updateRat config eng) =
     setTargetAtTime (volume_rat (assign (ratConfig eng) config))
       (currentTime (ctx eng)) 0.05 (ratPostGain_gain eng)"
  by (simp add: updateRat_def Let_def)

lemma updateRat_curve:
  "ratWaveshaper_curve (updateRat config eng) =
     Some (makeRatCurve (distortion (assign (ratConfig eng) config)))"
  by (simp add: updateRat_def Let_def)

lemma param_target_setTargetAtTime [simp]:
  "param_target (setTargetAtTime v t c p) = v"
  by (simp add: param_target_def setTargetAtTime_def)

subsection \<open>Which layers can fail\<close>

lemma case_kickSub:
  "(case kickSub time masterVol isModded baseFreq of Inl err \<Rightarrow> f err | Inr g \<Rightarrow> h g) =
     h (projr (kickSub time masterVol isModded baseFreq))"
  by (simp add: kickSub_def Let_def exponentialRampToValueAtTime_def)

lemma case_kickBody:
  "(case kickBody time masterVol isModded tune' baseFreq of Inl err \<Rightarrow> f err | Inr g \<Rightarrow> h g) =
     (if baseFreq = 0 then f RangeError
      else h (projr (kickBody time masterVol isModded tune' baseFreq)))"
  by (simp add: kickBody_def Let_def exponentialRampToValueAtTime_def)

lemma case_kickClick:
  "(case kickClick time masterVol isModded of Inl err \<Rightarrow> f err | Inr g \<Rightarrow> h g) =
     h (projr (kickClick time masterVol isModded))"
  by (simp add: kickClick_def Let_def exponentialRampToValueAtTime_def)

lemma case_kickNoise:
  "(case kickNoise time masterVol noiseBuffer of Inl err \<Rightarrow> f err | Inr g \<Rightarrow> h g) =
     h (projr (kickNoise time masterVol noiseBuffer))"
  by (simp add: kickNoise_def Let_def exponentialRampToValueAtTime_def)

lemma case_snareBodyLow:
  "(case snareBodyLow time masterVol bodyFreq of Inl err \<Rightarrow> f err | Inr g \<Rightarrow> h g) =
     h (projr (snareBodyLow time masterVol bodyFreq))"
  by (simp add: snareBodyLow_def Let_def exponentialRampToValueAtTime_def)

lemma case_snareBodyHigh:
  "(case snareBodyHigh time masterVol bodyFreq of Inl err \<Rightarrow> f err | Inr g \<Rightarrow> h g) =
     (if bodyFreq * 1.2 = 0 then f RangeError
      else h (projr (snareBodyHigh time masterVol bodyFreq)))"
  by (simp add: snareBodyHigh_def Let_def exponentialRampToValueAtTime_def)

lemma case_snareWires:
  "(case snareWires time masterVol tune' noiseBuffer of Inl err \<Rightarrow> f err | Inr g \<Rightarrow> h g) =
     (if masterVol * 0.1 = 0 then f RangeError
      else h (projr (snareWires time masterVol tune' noiseBuffer)))"
  by (simp add: snareWires_def Let_def exponentialRampToValueAtTime_def)

lemma case_snareClick:
  "(case snareClick time masterVol clickBuffer of Inl err \<Rightarrow> f err | Inr g \<Rightarrow> h g) =
     h (projr (snareClick time masterVol clickBuffer))"
  by (simp add: snareClick_def Let_def exponentialRampToValueAtTime_def)

subsection \<open>What a trigger connects\<close>

lemma triggerKick_effect:
  "triggerKick time config rnd eng =
     (let masterVol = volume config * (velocity config / 127);
          baseFreq = 35 + tune config * 20;
          isModded = kickModEnabled eng
      in if baseFreq = 0
         then (eng\<lparr>ratInput_inputs := ratInput_inputs eng @
                 [projr (kickSub time masterVol isModded baseFreq)]\<rparr>,
               rnd, Some RangeError)
         else (eng\<lparr>ratInput_inputs := ratInput_inputs eng @
                 [projr (kickSub time masterVol isModded baseFreq),
                  projr (kickBody time masterVol isModded (tune config) baseFreq),
                  projr (kickClick time masterVol isModded)] @
                 (if isModded
                  then [projr (kickNoise time masterVol
                          (fst (createNoiseBuffer (sampleRate (ctx eng)) rnd 0.02)))]
                  else [])\<rparr>,
               if isModded then snd (createNoiseBuffer (sampleRate (ctx eng)) rnd 0.02) else rnd,
               None))"
  unfolding triggerKick_def Let_def case_kickSub case_kickBody case_kickClick case_kickNoise
    case_prod_beta connect_ratInput_def
  by simp

lemma triggerSnare_effect:
  "triggerSnare time config rnd eng =
     (let masterVol = volume config * (velocity config / 127);
          bodyFreq = 150 + tune config * 100;
          noise = createNoiseBuffer (sampleRate (ctx eng)) rnd 0.3;
          click = createNoiseBuffer (sampleRate (ctx eng)) (snd noise) 0.01
      in if bodyFreq * 1.2 = 0
         then (eng\<lparr>ratInput_inputs := ratInput_inputs eng @
                 [projr (snareBodyLow time masterVol bodyFreq)]\<rparr>,
               rnd, Some RangeError)
         else if masterVol * 0.1 = 0
         then (eng\<lparr>ratInput_inputs := ratInput_inputs eng @
                 [projr (snareBodyLow time masterVol bodyFreq),
                  projr (snareBodyHigh time masterVol bodyFreq)]\<rparr>,
               snd noise, Some RangeError)
         else (eng\<lparr>ratInput_inputs := ratInput_inputs eng @
                 [projr (snareBodyLow time masterVol bodyFreq),
                  projr (snareBodyHigh time masterVol bodyFreq),
                  projr (snareWires time masterVol (tune config) (fst noise)),
                  projr (snareClick time masterVol (fst click))]\<rparr>,
               snd click, None))"
  unfolding triggerSnare_def Let_def case_snareBodyLow case_snareBodyHigh case_snareWires
    case_snareClick case_prod_beta connect_ratInput_def
  by simp

lemma hatOscillators_sources:
  "map (source_schedule time) (concat (map sources (fst (hatOscillators time baseFreq isOpen rs i rnd))))
     = replicate (length rs) (ScheduledOscillator (Some 0) (Some (if isOpen then 0.5 else 0.1)))"
  by (induction rs arbitrary: i rnd)
     (simp_all add: Let_def createOscillator_def createGain_def offset_from_def case_prod_beta)


lemma triggerHiHat_effect:
  "triggerHiHat time config isOpen rnd eng =
     (eng\<lparr>ratInput_inputs := ratInput_inputs eng @
        [Sub (Gain \<lparr>gain = \<lparr>param_value = 1, param_events =
                [SetValueAtTime (volume config * (velocity config / 127) * 0.5) time,
                 ExponentialRampToValueAtTime 0.001
                   (time + (if isOpen then 0.35 else 0.05))]\<rparr>\<rparr>)
           [Sub (BiquadFilter \<lparr>bq_type = Highpass,
                   bq_frequency = \<lparr>param_value = 6000, param_events = []\<rparr>,
                   bq_Q = \<lparr>param_value = 0.5, param_events = []\<rparr>\<rparr>)
              [Sub (BiquadFilter \<lparr>bq_type = Bandpass,
                      bq_frequency = \<lparr>param_value = 8000 + tune config * 4000, param_events = []\<rparr>,
                      bq_Q = \<lparr>param_value = 1.5, param_events = []\<rparr>\<rparr>)
                 [Sub (Gain \<lparr>gain = \<lparr>param_value = 1, param_events = []\<rparr>\<rparr>)
                    (fst (hatOscillators time (300 + tune config * 400) isOpen ratios 0 rnd))]]]]\<rparr>,
      snd (hatOscillators time (300 + tune config * 400) isOpen ratios 0 rnd),
      None)"
  unfolding triggerHiHat_def Let_def case_prod_beta connect_ratInput_def
  by (simp add: exponentialRampToValueAtTime_def createGain_def createBiquadFilter_def
        newParam_def setValue_def setValueAtTime_def del: hatOscillators.simps)

lemma triggerClapBurst_effect:
  "triggerClapBurst time volume' tune' rnd eng =
     (eng\<lparr>ratInput_inputs := ratInput_inputs eng @
        [Sub (Gain \<lparr>gain = \<lparr>param_value = 1, param_events =
                [SetValueAtTime volume' time,
                 ExponentialRampToValueAtTime 0.001 (time + 0.015)]\<rparr>\<rparr>)
           [Sub (BiquadFilter \<lparr>bq_type = Bandpass,
                   bq_frequency = \<lparr>param_value = 1200 + tune' * 800, param_events = []\<rparr>,
                   bq_Q = \<lparr>param_value = 2, param_events = []\<rparr>\<rparr>)
              [Sub (BufferSource \<lparr>src_buffer =
                      Some (fst (createNoiseBuffer (sampleRate (ctx eng)) rnd 0.02)),
                    src_start = Some time, src_stop = None\<rparr>) []]]]\<rparr>,
      snd (createNoiseBuffer (sampleRate (ctx eng)) rnd 0.02),
      None)"
  unfolding triggerClapBurst_def Let_def case_prod_beta connect_ratInput_def
  by (simp add: exponentialRampToValueAtTime_def createGain_def createBiquadFilter_def
        createBufferSource_def newParam_def setValue_def setValueAtTime_def)

lemma triggerClapTail_effect:
  "triggerClapTail time volume' tune' rnd eng =
     (eng\<lparr>ratInput_inputs := ratInput_inputs eng @
        [Sub (Gain \<lparr>gain = \<lparr>param_value = 1, param_events =
                [SetValueAtTime volume' time,
                 ExponentialRampToValueAtTime 0.001 (time + 0.2)]\<rparr>\<rparr>)
           [Sub (BiquadFilter \<lparr>bq_type = Highpass,
                   bq_frequency = \<lparr>param_value = 800, param_events = []\<rparr>,
                   bq_Q = \<lparr>param_value = 1, param_events = []\<rparr>\<rparr>)
              [Sub (BiquadFilter \<lparr>bq_type = Bandpass,
                      bq_frequency = \<lparr>param_value = 1500 + tune' * 1000, param_events = []\<rparr>,
                      bq_Q = \<lparr>param_value = 1, param_events = []\<rparr>\<rparr>)
                 [Sub (BufferSource \<lparr>src_buffer =
                         Some (fst (createNoiseBuffer (sampleRate (ctx eng)) rnd 0.25)),
                       src_start = Some time, src_stop = Some (time + 0.3)\<rparr>) []]]]]\<rparr>,
      snd (createNoiseBuffer (sampleRate (ctx eng)) rnd 0.25),
      None)"
  unfolding triggerClapTail_def Let_def case_prod_beta connect_ratInput_def
  by (simp add: exponentialRampToValueAtTime_def createGain_def createBiquadFilter_def
        createBufferSource_def newParam_def setValue_def setValueAtTime_def)

lemma new_voices_append [simp]:
  "new_voices eng (eng\<lparr>ratInput_inputs := ratInput_inputs eng @ new\<rparr>) = new"
  by (simp add: new_voices_def)

lemma triggerClap_loop_effect:
  "\<exists>new rnd'.
     triggerClap_loop time masterVol tune' i rnd eng =
       (eng\<lparr>ratInput_inputs := ratInput_inputs eng @ new\<rparr>, rnd', None) \<and>
     map (source_schedule time) (concat (map sources new)) =
       map (\<lambda>j. ScheduledBuffer (Some (real j * 0.012)) None
                  (Some (nat \<lceil>sampleRate (ctx eng) * 0.02\<rceil>))) [i..<4] \<and>
     (i < 4 \<longrightarrow>
        envelope (hd new) =
          [SetValueAtTime (if i < 3 then masterVol * 0.4 else masterVol * 0.8)
             (time + real i * 0.012),
           ExponentialRampToValueAtTime 0.001 (time + real i * 0.012 + 0.015)] \<and>
        filters (hd new) = [(Bandpass, 1200 + tune' * 800)])"
proof (induction time masterVol tune' i rnd eng rule: triggerClap_loop.induct)
  case (1 time masterVol tune' i rnd eng)
  show ?case
  proof (cases "i < numBursts")
    case True
    define burstTime where "burstTime = time + (real i * burstSpacing)"
    define burstVol where
      "burstVol = (if i < numBursts - 1 then masterVol * 0.4 else masterVol * 0.8)"
    define g where "g = hd (new_voices eng (fst (triggerClapBurst burstTime burstVol tune' rnd eng)))"
    let ?eng1 = "eng\<lparr>ratInput_inputs := ratInput_inputs eng @ [g]\<rparr>"
    let ?rnd1 = "snd (createNoiseBuffer (sampleRate (ctx eng)) rnd 0.02)"
    have burst: "triggerClapBurst burstTime burstVol tune' rnd eng = (?eng1, ?rnd1, None)"
      unfolding g_def by (simp add: triggerClapBurst_effect)
    have sg: "map (source_schedule time) (sources g) =
            [ScheduledBuffer (Some (burstTime - time)) None
               (Some (nat \<lceil>sampleRate (ctx eng) * 0.02\<rceil>))]"
      unfolding g_def
      by (simp add: triggerClapBurst_effect offset_from_def createNoiseBuffer_length)
    have eg: "envelope g =
          [SetValueAtTime burstVol burstTime,
           ExponentialRampToValueAtTime 0.001 (burstTime + 0.015)]"
      and fg: "filters g = [(Bandpass, 1200 + tune' * 800)]"
      unfolding g_def by (simp_all add: triggerClapBurst_effect)
    from "1.IH" [OF True burstTime_def burstVol_def burst [symmetric] refl refl]
    obtain new rnd' where ih:
      "triggerClap_loop time masterVol tune' (i + 1) ?rnd1 ?eng1 =
               (?eng1\<lparr>ratInput_inputs := ratInput_inputs ?eng1 @ new\<rparr>, rnd', None) \<and>
       map (source_schedule time) (concat (map sources new)) =
        map (\<lambda>j. ScheduledBuffer (Some (real j * 0.012)) None
                  (Some (nat \<lceil>sampleRate (ctx ?eng1) * 0.02\<rceil>))) [i + 1..<4] \<and>
       (i + 1 < 4 \<longrightarrow>
        envelope (hd new) =
          [SetValueAtTime (if i + 1 < 3 then masterVol * 0.4 else masterVol * 0.8)
             (time + real (i + 1) * 0.012),
           ExponentialRampToValueAtTime 0.001 (time + real (i + 1) * 0.012 + 0.015)] \<and>
        filters (hd new) = [(Bandpass, 1200 + tune' * 800)])"
      by (elim exE)
    from ih have
      rest: "triggerClap_loop time masterVol tune' (i + 1) ?rnd1 ?eng1 =
               (?eng1\<lparr>ratInput_inputs := ratInput_inputs ?eng1 @ new\<rparr>, rnd', None)"
      by (rule conjunct1)
    from ih have
      snew: "map (source_schedule time) (concat (map sources new)) =
        map (\<lambda>j. ScheduledBuffer (Some (real j * 0.012)) None
                  (Some (nat \<lceil>sampleRate (ctx ?eng1) * 0.02\<rceil>))) [i + 1..<4]"
      by (rule conjunct2 [THEN conjunct1])
    have step: "triggerClap_loop time masterVol tune' i rnd eng =
        triggerClap_loop time masterVol tune' (i + 1) ?rnd1 ?eng1"
      using True burst
      by (simp add: triggerClap_loop.simps [of time masterVol tune' i rnd eng]
            burstTime_def burstVol_def Let_def)
    have a: "triggerClap_loop time masterVol tune' i rnd eng =
        (eng\<lparr>ratInput_inputs := ratInput_inputs eng @ (g # new)\<rparr>, rnd', None)"
      unfolding step rest by simp
    from True have i4: "i < 4" by (simp add: numBursts_def)
    have bt: "burstTime = time + real i * 0.012"
      by (simp add: burstTime_def burstSpacing_def)
    have b: "map (source_schedule time) (concat (map sources (g # new))) =
        map (\<lambda>j. ScheduledBuffer (Some (real j * 0.012)) None
                  (Some (nat \<lceil>sampleRate (ctx eng) * 0.02\<rceil>))) [i..<4]"
    proof -
      from i4 have "[i..<4] = i # [i + 1..<4]" by (simp add: upt_conv_Cons)
      moreover have "burstTime - time = real i * 0.012" using bt by simp
      ultimately show ?thesis using sg snew by simp
    qed
    have bv: "burstVol = (if i < 3 then masterVol * 0.4 else masterVol * 0.8)"
      by (simp add: burstVol_def numBursts_def)
    have c: "i < 4 \<longrightarrow>
        envelope (hd (g # new)) =
          [SetValueAtTime (if i < 3 then masterVol * 0.4 else masterVol * 0.8)
             (time + real i * 0.012),
           ExponentialRampToValueAtTime 0.001 (time + real i * 0.012 + 0.015)] \<and>
        filters (hd (g # new)) = [(Bandpass, 1200 + tune' * 800)]"
      using eg fg unfolding bt bv by simp
    from a b c show ?thesis by (intro exI conjI)
  next
    case False
    then have "triggerClap_loop time masterVol tune' i rnd eng = (eng, rnd, None)"
      by (simp add: triggerClap_loop.simps [of time masterVol tune' i rnd eng])
    moreover from False have n4: "\<not> i < 4" by (simp add: numBursts_def)
    then have "[i..<4] = []" by simp
    ultimately have "triggerClap_loop time masterVol tune' i rnd eng =
          (eng\<lparr>ratInput_inputs := ratInput_inputs eng @ []\<rparr>, rnd, None) \<and>
        map (source_schedule time) (concat (map sources [])) =
          map (\<lambda>j. ScheduledBuffer (Some (real j * 0.012)) None
                  (Some (nat \<lceil>sampleRate (ctx eng) * 0.02\<rceil>))) [i..<4] \<and>
        (i < 4 \<longrightarrow>
          envelope (hd []) =
            [SetValueAtTime (if i < 3 then masterVol * 0.4 else masterVol * 0.8)
               (time + real i * 0.012),
             ExponentialRampToValueAtTime 0.001 (time + real i * 0.012 + 0.015)] \<and>
          filters (hd []) = [(Bandpass, 1200 + tune' * 800)])"
      using n4 by simp
    then show ?thesis by (intro exI)
  qed
qed

lemma triggerClap_effect:
  "\<exists>new. triggerClap time config rnd eng =
       (eng\<lparr>ratInput_inputs := ratInput_inputs eng @ new\<rparr>,
        snd (triggerClap time config rnd eng)) \<and>
     thrown (triggerClap time config rnd eng) = None \<and>
     map (source_schedule time) (concat (map sources new)) =
       [ScheduledBuffer (Some 0) None (Some (nat \<lceil>sampleRate (ctx eng) * 0.02\<rceil>)),
        ScheduledBuffer (Some 0.012) None (Some (nat \<lceil>sampleRate (ctx eng) * 0.02\<rceil>)),
        ScheduledBuffer (Some 0.024) None (Some (nat \<lceil>sampleRate (ctx eng) * 0.02\<rceil>)),
        ScheduledBuffer (Some 0.036) None (Some (nat \<lceil>sampleRate (ctx eng) * 0.02\<rceil>)),
        ScheduledBuffer (Some 0.04) (Some 0.34) (Some (nat \<lceil>sampleRate (ctx eng) * 0.25\<rceil>))] \<and>
     envelope (hd new) =
       [SetValueAtTime (volume config * (velocity config / 127) * 0.4) time,
        ExponentialRampToValueAtTime 0.001 (time + 0.015)] \<and>
     filters (hd new) = [(Bandpass, 1200 + tune config * 800)]"
proof -
  define masterVol where "masterVol = volume config * (velocity config / 127)"
  from triggerClap_loop_effect [of time masterVol "tune config" 0 rnd eng]
  obtain new rnd' where l:
    "triggerClap_loop time masterVol (tune config) 0 rnd eng =
       (eng\<lparr>ratInput_inputs := ratInput_inputs eng @ new\<rparr>, rnd', None) \<and>
     map (source_schedule time) (concat (map sources new)) =
       map (\<lambda>j. ScheduledBuffer (Some (real j * 0.012)) None
                  (Some (nat \<lceil>sampleRate (ctx eng) * 0.02\<rceil>))) [0..<4] \<and>
     (0 < (4::nat) \<longrightarrow>
        envelope (hd new) =
          [SetValueAtTime (if 0 < (3::nat) then masterVol * 0.4 else masterVol * 0.8)
             (time + real 0 * 0.012),
           ExponentialRampToValueAtTime 0.001 (time + real 0 * 0.012 + 0.015)] \<and>
        filters (hd new) = [(Bandpass, 1200 + tune config * 800)])"
    by (elim exE)
  from l have
    loop: "triggerClap_loop time masterVol (tune config) 0 rnd eng =
       (eng\<lparr>ratInput_inputs := ratInput_inputs eng @ new\<rparr>, rnd', None)"
    by (rule conjunct1)
  from l have
    snew: "map (source_schedule time) (concat (map sources new)) =
       map (\<lambda>j. ScheduledBuffer (Some (real j * 0.012)) None
                  (Some (nat \<lceil>sampleRate (ctx eng) * 0.02\<rceil>))) [0..<4]"
    by (rule conjunct2 [THEN conjunct1])
  from l have hd_new: "envelope (hd new) =
          [SetValueAtTime (masterVol * 0.4) time,
           ExponentialRampToValueAtTime 0.001 (time + 0.015)] \<and>
        filters (hd new) = [(Bandpass, 1200 + tune config * 800)]"
    by simp
  have "[0..<4] = [0, 1, 2, 3]" by (simp add: upt_conv_Cons)
  with snew have snew': "map (source_schedule time) (concat (map sources new)) =
       [ScheduledBuffer (Some 0) None (Some (nat \<lceil>sampleRate (ctx eng) * 0.02\<rceil>)),
        ScheduledBuffer (Some 0.012) None (Some (nat \<lceil>sampleRate (ctx eng) * 0.02\<rceil>)),
        ScheduledBuffer (Some 0.024) None (Some (nat \<lceil>sampleRate (ctx eng) * 0.02\<rceil>)),
        ScheduledBuffer (Some 0.036) None (Some (nat \<lceil>sampleRate (ctx eng) * 0.02\<rceil>))]"
    by simp
  have ne: "new \<noteq> []"
  proof
    assume "new = []"
    with snew' show False by simp
  qed
  let ?eng1 = "eng\<lparr>ratInput_inputs := ratInput_inputs eng @ new\<rparr>"
  define g where "g = hd (new_voices ?eng1
     (fst (triggerClapTail (time + 0.04) (masterVol * 0.3) (tune config) rnd' ?eng1)))"
  have tail: "triggerClapTail (time + 0.04) (masterVol * 0.3) (tune config) rnd' ?eng1 =
       (?eng1\<lparr>ratInput_inputs := ratInput_inputs ?eng1 @ [g]\<rparr>,
        snd (createNoiseBuffer (sampleRate (ctx ?eng1)) rnd' 0.25), None)"
    unfolding g_def by (simp add: triggerClapTail_effect new_voices_def)
  have sg: "map (source_schedule time) (sources g) =
       [ScheduledBuffer (Some 0.04) (Some 0.34) (Some (nat \<lceil>sampleRate (ctx eng) * 0.25\<rceil>))]"
    unfolding g_def
    by (simp add: triggerClapTail_effect new_voices_def offset_from_def createNoiseBuffer_length)
  have whole: "triggerClap time config rnd eng =
      (eng\<lparr>ratInput_inputs := ratInput_inputs eng @ (new @ [g])\<rparr>,
       snd (createNoiseBuffer (sampleRate (ctx eng)) rnd' 0.25), None)"
    using loop tail by (simp add: triggerClap_def Let_def masterVol_def)
  have a: "triggerClap time config rnd eng =
      (eng\<lparr>ratInput_inputs := ratInput_inputs eng @ (new @ [g])\<rparr>,
       snd (triggerClap time config rnd eng))"
    unfolding whole by simp
  have t: "thrown (triggerClap time config rnd eng) = None"
    unfolding whole by (simp add: thrown_def)
  have b: "map (source_schedule time) (concat (map sources (new @ [g]))) =
       [ScheduledBuffer (Some 0) None (Some (nat \<lceil>sampleRate (ctx eng) * 0.02\<rceil>)),
        ScheduledBuffer (Some 0.012) None (Some (nat \<lceil>sampleRate (ctx eng) * 0.02\<rceil>)),
        ScheduledBuffer (Some 0.024) None (Some (nat \<lceil>sampleRate (ctx eng) * 0.02\<rceil>)),
        ScheduledBuffer (Some 0.036) None (Some (nat \<lceil>sampleRate (ctx eng) * 0.02\<rceil>)),
        ScheduledBuffer (Some 0.04) (Some 0.34) (Some (nat \<lceil>sampleRate (ctx eng) * 0.25\<rceil>))]"
    using snew' sg by simp
  have c: "envelope (hd (new @ [g])) =
       [SetValueAtTime (volume config * (velocity config / 127) * 0.4) time,
        ExponentialRampToValueAtTime 0.001 (time + 0.015)]"
    and d: "filters (hd (new @ [g])) = [(Bandpass, 1200 + tune config * 800)]"
    using hd_new ne by (simp_all add: masterVol_def)
  from a t b c d show ?thesis by (intro exI conjI)
qed

lemma kick_schedules:
  "map (source_schedule time) (sources (projr (kickSub time masterVol isModded baseFreq))) =
     [ScheduledOscillator (Some 0) (Some 0.6)]"
  "baseFreq \<noteq> 0 \<Longrightarrow>
   map (source_schedule time) (sources (projr (kickBody time masterVol isModded tune' baseFreq))) =
     [ScheduledOscillator (Some 0) (Some 0.4)]"
  "map (source_schedule time) (sources (projr (kickClick time masterVol isModded))) =
     [ScheduledOscillator (Some 0) (Some 0.05)]"
  "map (source_schedule time) (sources (projr (kickNoise time masterVol noiseBuffer))) =
     [ScheduledBuffer (Some 0) None (Some (length noiseBuffer))]"
  by (simp_all add: kickSub_def kickBody_def kickClick_def kickNoise_def Let_def
        exponentialRampToValueAtTime_def createOscillator_def createBufferSource_def
        offset_from_def)

lemma snare_schedules:
  "map (source_schedule time) (sources (projr (snareBodyLow time masterVol bodyFreq))) =
     [ScheduledOscillator (Some 0) (Some 0.2)]"
  "bodyFreq * 1.2 \<noteq> 0 \<Longrightarrow>
   map (source_schedule time) (sources (projr (snareBodyHigh time masterVol bodyFreq))) =
     [ScheduledOscillator (Some 0) (Some 0.15)]"
  "masterVol * 0.1 \<noteq> 0 \<Longrightarrow>
   map (source_schedule time) (sources (projr (snareWires time masterVol tune' noiseBuffer))) =
     [ScheduledBuffer (Some 0) (Some 0.35) (Some (length noiseBuffer))]"
  "map (source_schedule time) (sources (projr (snareClick time masterVol clickBuffer))) =
     [ScheduledBuffer (Some 0) None (Some (length clickBuffer))]"
  by (simp_all add: snareBodyLow_def snareBodyHigh_def snareWires_def snareClick_def Let_def
        exponentialRampToValueAtTime_def createOscillator_def createBufferSource_def
        offset_from_def)

text \<open>When a trigger ends with an exception.\<close>

lemma trigger_thrown:
  "thrown (trigger ty time config rnd eng) =
     (case ty of
        KICK \<Rightarrow> if 35 + tune config * 20 = 0 then Some RangeError else None
      | SNARE \<Rightarrow>
          if (150 + tune config * 100) * 1.2 = 0 \<or> volume config * (velocity config / 127) * 0.1 = 0
          then Some RangeError else None
      | HAT \<Rightarrow> None
      | CLAP \<Rightarrow> None)"
proof (cases ty)
  case KICK
  then show ?thesis by (simp add: thrown_def triggerKick_effect Let_def)
next
  case SNARE
  then show ?thesis by (simp add: thrown_def triggerSnare_effect Let_def)
next
  case HAT
  then show ?thesis by (simp add: thrown_def triggerHiHat_effect)
next
  case CLAP
  from triggerClap_effect [of time config rnd eng]
  have "thrown (triggerClap time config rnd eng) = None" by (elim exE conjE)
  with CLAP show ?thesis by simp
qed

lemma appends_intro:
  assumes "r = eng\<lparr>ratInput_inputs := ratInput_inputs eng @ new\<rparr>" and "new \<noteq> []"
  shows "\<exists>new. new \<noteq> [] \<and> r = eng\<lparr>ratInput_inputs := ratInput_inputs eng @ new\<rparr>"
  using assms by (intro exI conjI)

lemma trigger_appends:
  "\<exists>new. new \<noteq> [] \<and>
     fst (trigger ty time config rnd eng) = eng\<lparr>ratInput_inputs := ratInput_inputs eng @ new\<rparr>"
proof (cases ty)
  case KICK
  show ?thesis
  proof (cases "35 + tune config * 20 = 0")
    case True
    then show ?thesis
      unfolding KICK trigger.simps triggerKick_effect Let_def
      by - (rule appends_intro, simp, simp)
  next
    case False
    then show ?thesis
      unfolding KICK trigger.simps triggerKick_effect Let_def
      by - (rule appends_intro, simp, simp)
  qed
next
  case SNARE
  show ?thesis
  proof (cases "(150 + tune config * 100) * 1.2 = 0")
    case True
    then show ?thesis
      unfolding SNARE trigger.simps triggerSnare_effect Let_def
      by - (rule appends_intro, simp, simp)
  next
    case False
    show ?thesis
    proof (cases "volume config * (velocity config / 127) * 0.1 = 0")
      case True
      with False show ?thesis
        unfolding SNARE trigger.simps triggerSnare_effect Let_def
        by - (rule appends_intro, simp, simp)
    next
      case nz: False
      with False show ?thesis
        unfolding SNARE trigger.simps triggerSnare_effect Let_def
        by - (rule appends_intro, simp, simp)
    qed
  qed
next
  case HAT
  show ?thesis
    unfolding HAT trigger.simps triggerHiHat_effect
    by - (rule appends_intro, simp, simp)
next
  case CLAP
  from triggerClap_effect [of time config rnd eng]
  obtain new where e: "triggerClap time config rnd eng =
       (eng\<lparr>ratInput_inputs := ratInput_inputs eng @ new\<rparr>,
        snd (triggerClap time config rnd eng))"
    and s: "map (source_schedule time) (concat (map sources new)) =
       [ScheduledBuffer (Some 0) None (Some (nat \<lceil>sampleRate (ctx eng) * 0.02\<rceil>)),
        ScheduledBuffer (Some 0.012) None (Some (nat \<lceil>sampleRate (ctx eng) * 0.02\<rceil>)),
        ScheduledBuffer (Some 0.024) None (Some (nat \<lceil>sampleRate (ctx eng) * 0.02\<rceil>)),
        ScheduledBuffer (Some 0.036) None (Some (nat \<lceil>sampleRate (ctx eng) * 0.02\<rceil>)),
        ScheduledBuffer (Some 0.04) (Some 0.34) (Some (nat \<lceil>sampleRate (ctx eng) * 0.25\<rceil>))]"
    by (elim exE conjE)
  have ne: "new \<noteq> []"
  proof
    assume "new = []"
    with s show False by simp
  qed
  from e have "fst (triggerClap time config rnd eng) =
      eng\<lparr>ratInput_inputs := ratInput_inputs eng @ new\<rparr>"
    by (metis fst_conv)
  with ne show ?thesis unfolding CLAP trigger.simps by (intro exI conjI)
qed

lemma trigger_schedule:
  assumes "thrown (trigger ty time config rnd eng) = None"
  shows "map (source_schedule time)
     (concat (map sources (new_voices eng (fst (trigger ty time config rnd eng))))) =
       (case ty of
          KICK \<Rightarrow>
            [ScheduledOscillator (Some 0) (Some 0.6),
             ScheduledOscillator (Some 0) (Some 0.4),
             ScheduledOscillator (Some 0) (Some 0.05)] @
            (if kickModEnabled eng
             then [ScheduledBuffer (Some 0) None (Some (nat \<lceil>sampleRate (ctx eng) * 0.02\<rceil>))]
             else [])
        | SNARE \<Rightarrow>
            [ScheduledOscillator (Some 0) (Some 0.2),
             ScheduledOscillator (Some 0) (Some 0.15),
             ScheduledBuffer (Some 0) (Some 0.35) (Some (nat \<lceil>sampleRate (ctx eng) * 0.3\<rceil>)),
             ScheduledBuffer (Some 0) None (Some (nat \<lceil>sampleRate (ctx eng) * 0.01\<rceil>))]
        | HAT \<Rightarrow> replicate 6 (ScheduledOscillator (Some 0) (Some 0.1))
        | CLAP \<Rightarrow>
            [ScheduledBuffer (Some 0) None (Some (nat \<lceil>sampleRate (ctx eng) * 0.02\<rceil>)),
             ScheduledBuffer (Some 0.012) None (Some (nat \<lceil>sampleRate (ctx eng) * 0.02\<rceil>)),
             ScheduledBuffer (Some 0.024) None (Some (nat \<lceil>sampleRate (ctx eng) * 0.02\<rceil>)),
             ScheduledBuffer (Some 0.036) None (Some (nat \<lceil>sampleRate (ctx eng) * 0.02\<rceil>)),
             ScheduledBuffer (Some 0.04) (Some 0.34)
               (Some (nat \<lceil>sampleRate (ctx eng) * 0.25\<rceil>))])"
proof (cases ty)
  case KICK
  from assms have "35 + tune config * 20 \<noteq> 0"
    unfolding trigger_thrown KICK by (simp split: if_splits)
  then show ?thesis
    unfolding KICK trigger.simps triggerKick_effect Let_def
    by (simp add: kick_schedules createNoiseBuffer_length)
next
  case SNARE
  from assms have "(150 + tune config * 100) * 1.2 \<noteq> 0"
    and "volume config * (velocity config / 127) * 0.1 \<noteq> 0"
    unfolding trigger_thrown SNARE by (simp_all split: if_splits)
  then show ?thesis
    unfolding SNARE trigger.simps triggerSnare_effect Let_def
    by (simp add: snare_schedules createNoiseBuffer_length)
next
  case HAT
  show ?thesis
    unfolding HAT trigger.simps triggerHiHat_effect
    by (simp add: hatOscillators_sources del: hatOscillators.simps) (simp add: ratios_def)
next
  case CLAP
  from triggerClap_effect [of time config rnd eng]
  obtain new where e: "triggerClap time config rnd eng =
       (eng\<lparr>ratInput_inputs := ratInput_inputs eng @ new\<rparr>,
        snd (triggerClap time config rnd eng))"
    and s: "map (source_schedule time) (concat (map sources new)) =
       [ScheduledBuffer (Some 0) None (Some (nat \<lceil>sampleRate (ctx eng) * 0.02\<rceil>)),
        ScheduledBuffer (Some 0.012) None (Some (nat \<lceil>sampleRate (ctx eng) * 0.02\<rceil>)),
        ScheduledBuffer (Some 0.024) None (Some (nat \<lceil>sampleRate (ctx eng) * 0.02\<rceil>)),
        ScheduledBuffer (Some 0.036) None (Some (nat \<lceil>sampleRate (ctx eng) * 0.02\<rceil>)),
        ScheduledBuffer (Some 0.04) (Some 0.34) (Some (nat \<lceil>sampleRate (ctx eng) * 0.25\<rceil>))]"
    by (elim exE conjE)
  from e have f: "fst (triggerClap time config rnd eng) =
      eng\<lparr>ratInput_inputs := ratInput_inputs eng @ new\<rparr>"
    by (metis fst_conv)
  show ?thesis unfolding CLAP trigger.simps f new_voices_append DrumType.case by (rule s)
qed

lemma hatOscillators_frequency:
  "concat (map source_frequency
     (concat (map sources (fst (hatOscillators time baseFreq isOpen rs i rnd))))) = []"
  by (induction rs arbitrary: i rnd)
     (simp_all add: Let_def createOscillator_def newParam_def setValue_def case_prod_beta)







lemma makeRatCurve_differ: "makeRatCurve 1 \<noteq> makeRatCurve 0.4"
proof
  assume "makeRatCurve 1 = makeRatCurve 0.4"
  then have "makeRatCurve 1 ! 0 = makeRatCurve 0.4 ! 0" by simp
  moreover have "curve_x 0 = - 1" by (simp add: curve_x_def)
  ultimately show False
    by (simp add: makeRatCurve_nth samples_def curve_entry_def)
qed

section \<open>Claims\<close>

text \<open>
  C7. For every duration \<open>> 0\<close> and every (positive) sample rate, the noise buffer
  generator returns a buffer of \<open>ceil(duration * sampleRate)\<close> frames in which every
  sample lies in \<open>[-1, 1]\<close>, given that every call of \<open>Math.random()\<close> returns a number
  in \<open>[0, 1)\<close>.
\<close>

theorem noise_buffer_length_and_range:
  assumes "0 < duration" and "0 < rate"
    and "\<forall>n. 0 \<le> rnd n \<and> rnd n < 1"
  shows "int (length (fst (createNoiseBuffer rate rnd duration))) = \<lceil>duration * rate\<rceil> \<and>
   (\<forall>s \<in> set (fst (createNoiseBuffer rate rnd duration)). -1 \<le> s \<and> s \<le> 1)"
proof
  from assms(1,2) have "0 < duration * rate" by simp
  then have "0 \<le> \<lceil>duration * rate\<rceil>" by linarith
  then show "int (length (fst (createNoiseBuffer rate rnd duration))) = \<lceil>duration * rate\<rceil>"
    by (simp add: createNoiseBuffer_length mult.commute)
next
  show "\<forall>s \<in> set (fst (createNoiseBuffer rate rnd duration)). -1 \<le> s \<and> s \<le> 1"
  proof
    fix s assume "s \<in> set (fst (createNoiseBuffer rate rnd duration))"
    then obtain j where j: "j < nat \<lceil>rate * duration\<rceil>"
      and s: "s = fst (createNoiseBuffer rate rnd duration) ! j"
      by (auto simp: in_set_conv_nth createNoiseBuffer_length)
    have "s = rnd j * 2 - 1" using s createNoiseBuffer_nth [OF j] by simp
    moreover have "0 \<le> rnd j" "rnd j < 1" using assms(3) by auto
    ultimately show "-1 \<le> s \<and> s \<le> 1" by simp
  qed
qed

theorem noise_buffer_length_and_range_witness:
  "(0::real) < 1 / 2 \<and> (0::real) < 8 \<and>
   (\<forall>n. 0 \<le> example_random n \<and> example_random n < 1) \<and>
   int (length (fst (createNoiseBuffer 8 example_random (1 / 2)))) = 4 \<and>
   list_all (\<lambda>s. - 1 \<le> s \<and> s \<le> 1) (fst (createNoiseBuffer 8 example_random (1 / 2)))"
proof -
  have r: "\<forall>n. 0 \<le> example_random n \<and> example_random n < 1"
    by (simp add: example_random_def)
  have c: "\<lceil>(1 / 2 :: real) * 8\<rceil> = 4" by simp
  show ?thesis
    using noise_buffer_length_and_range [of "1 / 2" 8 example_random] r c
    by (simp add: list_all_iff)
qed

text \<open>
  C4. For every drive amount the waveshaper curve has exactly 44100 entries; with
  \<open>k = driveAmount * 50 + 1\<close> and \<open>x = 2 * i / 44100 - 1\<close> at table index \<open>i\<close>, the
  entry is \<open>tanh (x * k * 1.2) * 0.9\<close> when \<open>x \<ge> 0\<close> and \<open>tanh (x * k * 0.8)\<close> when
  \<open>x < 0\<close>.
\<close>

theorem waveshaper_curve_table:
  "length (makeRatCurve driveAmount) = 44100 \<and>
   (\<forall>i<44100.
      makeRatCurve driveAmount ! i =
        (let k = driveAmount * 50 + 1;
             x = 2 * real i / 44100 - 1
         in if x \<ge> 0 then tanh (x * k * 1.2) * 0.9 else tanh (x * k * 0.8)))"
proof
  show "length (makeRatCurve driveAmount) = 44100"
    using makeRatCurve_length [of driveAmount] by (simp add: samples_def)
next
  show "\<forall>i<44100.
      makeRatCurve driveAmount ! i =
        (let k = driveAmount * 50 + 1;
             x = 2 * real i / 44100 - 1
         in if x \<ge> 0 then tanh (x * k * 1.2) * 0.9 else tanh (x * k * 0.8))"
  proof (intro allI impI)
    fix i :: nat
    assume "i < 44100"
    then have "i < samples" by (simp add: samples_def)
    then have "makeRatCurve driveAmount ! i = curve_entry (driveAmount * 50 + 1) i"
      by (rule makeRatCurve_nth)
    moreover have "curve_x i = 2 * real i / 44100 - 1"
      by (simp add: curve_x_def samples_def)
    ultimately show "makeRatCurve driveAmount ! i =
        (let k = driveAmount * 50 + 1;
             x = 2 * real i / 44100 - 1
         in if x \<ge> 0 then tanh (x * k * 1.2) * 0.9 else tanh (x * k * 0.8))"
      by (simp add: curve_entry_def Let_def)
  qed
qed

theorem waveshaper_curve_table_witness:
  "length (makeRatCurve 1) = 44100 \<and>
   makeRatCurve 1 ! 0 = tanh (- 40.8) \<and>
   makeRatCurve 1 ! 22050 = 0 \<and>
   makeRatCurve 1 ! 33075 = tanh 30.6 * 0.9"
proof -
  note t = waveshaper_curve_table [of 1]
  from t have len: "length (makeRatCurve 1) = 44100" by (rule conjunct1)
  from t have entries: "\<forall>i<44100.
      makeRatCurve 1 ! i =
        (let k = 1 * 50 + 1;
             x = 2 * real i / 44100 - 1
         in if x \<ge> 0 then tanh (x * k * 1.2) * 0.9 else tanh (x * k * 0.8))"
    by (rule conjunct2)
  from entries [rule_format, of 0] have e0: "makeRatCurve 1 ! 0 = tanh (- 40.8)"
    by (simp add: Let_def)
  from entries [rule_format, of 22050] have e1: "makeRatCurve 1 ! 22050 = 0"
    by (simp add: Let_def)
  from entries [rule_format, of 33075] have e2: "makeRatCurve 1 ! 33075 = tanh 30.6 * 0.9"
    by (simp add: Let_def)
  from len e0 e1 e2 show ?thesis by simp
qed

text \<open>
  C1, as stated, fails: at distortion 1 the table inputs \<open>1/2\<close> (index 33075) and
  \<open>-1/2\<close> (index 11025) have outputs \<open>0.9 * tanh 30.6 < 0.9\<close> and \<open>- tanh 20.4\<close>,
  whose magnitude is above \<open>0.9\<close>: the positive branch is the smaller one.
\<close>

theorem positive_branch_magnitude_counterexample:
  "curve_x 33075 = 1 / 2 \<and> curve_x 11025 = - (1 / 2) \<and>
   \<not> (\<bar>makeRatCurve 1 ! 33075\<bar> \<ge> \<bar>makeRatCurve 1 ! 11025\<bar>)"
proof -
  have x1: "curve_x 33075 = 1 / 2" and x2: "curve_x 11025 = - (1 / 2)"
    by (simp_all add: curve_x_def samples_def)
  have y1: "makeRatCurve 1 ! 33075 = tanh (153 / 5) * (9 / 10)"
    using makeRatCurve_nth [of 33075 1] x1 by (simp add: samples_def curve_entry_def)
  have y2: "makeRatCurve 1 ! 11025 = - tanh (102 / 5)"
    using makeRatCurve_nth [of 11025 1] x2 by (simp add: samples_def curve_entry_def)
  have "tanh (153 / 5 :: real) < 1" by (rule tanh_real_lt_1)
  moreover have "0 < tanh (153 / 5 :: real)" by simp
  ultimately have a: "\<bar>makeRatCurve 1 ! 33075\<bar> < 9 / 10" unfolding y1 by simp
  have "9 / 10 < tanh (102 / 5 :: real)" by (rule tanh_gt_9_10) simp
  then have b: "9 / 10 < \<bar>makeRatCurve 1 ! 11025\<bar>" unfolding y2 by simp
  from a b x1 x2 show ?thesis by simp
qed

text \<open>
  C1, amended. At distortion 1 (\<open>k = 51\<close>), for every table input \<open>x\<close> whose mirror
  \<open>-x\<close> is a table input too (indices \<open>i\<close> and \<open>44100 - i\<close>, \<open>0 < i < 44100\<close>):
  the outputs at \<open>x\<close> and \<open>-x\<close> differ when \<open>x \<noteq> 0\<close>; for \<open>x > 0\<close> the output
  at \<open>x\<close> is positive and below \<open>0.9\<close> and the output at \<open>-x\<close> is negative; for
  \<open>x > 0\<close> the magnitude at \<open>x\<close> is at least the magnitude at \<open>-x\<close> exactly when
  \<open>3 * (tanh (20.4 * x))\<^sup>2 \<le> 1\<close>, which holds for \<open>x \<le> 1/60\<close>; and for
  \<open>x \<ge> 1/20\<close> the positive branch clips harder, that is, its magnitude stays below
  \<open>0.9\<close> while the magnitude at \<open>-x\<close> is above \<open>0.9\<close>.
\<close>

theorem positive_branch_clips_harder:
  assumes "0 < i" and "i < 44100"
  shows "curve_x (44100 - i) = - curve_x i \<and>
         (curve_x i \<noteq> 0 \<longrightarrow> makeRatCurve 1 ! i \<noteq> makeRatCurve 1 ! (44100 - i)) \<and>
         (0 < curve_x i \<longrightarrow>
            0 < makeRatCurve 1 ! i \<and> makeRatCurve 1 ! i < 0.9 \<and> makeRatCurve 1 ! (44100 - i) < 0) \<and>
         (0 < curve_x i \<longrightarrow>
            (\<bar>makeRatCurve 1 ! (44100 - i)\<bar> \<le> \<bar>makeRatCurve 1 ! i\<bar>
               \<longleftrightarrow> 3 * (tanh (curve_x i * 20.4))\<^sup>2 \<le> 1)) \<and>
         (0 < curve_x i \<and> curve_x i \<le> 1 / 60 \<longrightarrow>
            \<bar>makeRatCurve 1 ! (44100 - i)\<bar> \<le> \<bar>makeRatCurve 1 ! i\<bar>) \<and>
         (1 / 20 \<le> curve_x i \<longrightarrow>
            \<bar>makeRatCurve 1 ! i\<bar> < 0.9 \<and> 0.9 < \<bar>makeRatCurve 1 ! (44100 - i)\<bar>)"
proof -
  let ?j = "44100 - i"
  from assms have j: "0 < ?j" "?j < 44100" by simp_all
  have m: "curve_x ?j = - curve_x i" using assms by (rule curve_x_mirror)
  have yi: "makeRatCurve 1 ! i = curve_entry 51 i"
    using makeRatCurve_nth [of i 1] assms by (simp add: samples_def)
  have yj: "makeRatCurve 1 ! ?j = curve_entry 51 ?j"
    using makeRatCurve_nth [of ?j 1] j by (simp add: samples_def)
  have a: "makeRatCurve 1 ! i = tanh (curve_x i * 51 * 1.2) * 0.9" if "0 < curve_x i"
    unfolding yi using that by (rule curve_entry_pos)
  have b: "makeRatCurve 1 ! ?j = - tanh (curve_x i * 51 * 0.8)" if "0 < curve_x i"
  proof -
    from that have "curve_x ?j < 0" using m by simp
    then have "curve_entry 51 ?j = tanh (curve_x ?j * 51 * 0.8)" by (rule curve_entry_neg)
    then show ?thesis unfolding yj m by simp
  qed
  have pos: "0 < makeRatCurve 1 ! i \<and> makeRatCurve 1 ! i < 0.9 \<and> makeRatCurve 1 ! ?j < 0"
    if "0 < curve_x i"
  proof -
    have "0 < tanh (curve_x i * 51 * 1.2)" using that by simp
    moreover have "tanh (curve_x i * 51 * 1.2) < 1" by (rule tanh_real_lt_1)
    ultimately have "0 < makeRatCurve 1 ! i" "makeRatCurve 1 ! i < 0.9"
      unfolding a [OF that] by simp_all
    moreover have "makeRatCurve 1 ! ?j < 0" unfolding b [OF that] using that by simp
    ultimately show ?thesis by simp
  qed
  have neg: "makeRatCurve 1 ! i < 0 \<and> 0 < makeRatCurve 1 ! ?j" if "curve_x i < 0"
  proof -
    from that have xj: "0 < curve_x ?j" using m by simp
    have na: "makeRatCurve 1 ! i = tanh (curve_x i * 51 * 0.8)"
      unfolding yi using that by (rule curve_entry_neg)
    have nb: "makeRatCurve 1 ! ?j = tanh (curve_x ?j * 51 * 1.2) * 0.9"
      unfolding yj using xj by (rule curve_entry_pos)
    have "makeRatCurve 1 ! i < 0" unfolding na using that by simp
    moreover have "0 < makeRatCurve 1 ! ?j" unfolding nb using xj by simp
    ultimately show ?thesis by simp
  qed
  have differ: "makeRatCurve 1 ! i \<noteq> makeRatCurve 1 ! ?j" if "curve_x i \<noteq> 0"
  proof (cases "0 < curve_x i")
    case True
    with pos show ?thesis by auto
  next
    case False
    with that have "curve_x i < 0" by simp
    with neg show ?thesis by auto
  qed
  have exact: "\<bar>makeRatCurve 1 ! ?j\<bar> \<le> \<bar>makeRatCurve 1 ! i\<bar>
      \<longleftrightarrow> 3 * (tanh (curve_x i * 20.4))\<^sup>2 \<le> 1" if "0 < curve_x i"
  proof -
    let ?b = "curve_x i * 20.4"
    from that have b0: "0 < ?b" by simp
    have "curve_x i * 51 * 1.2 = 3 * ?b" and "curve_x i * 51 * 0.8 = 2 * ?b" by simp_all
    then have yi': "makeRatCurve 1 ! i = tanh (3 * ?b) * 0.9"
      and yj': "makeRatCurve 1 ! ?j = - tanh (2 * ?b)"
      using a [OF that] b [OF that] by simp_all
    have "0 < tanh (3 * ?b)" and "0 < tanh (2 * ?b)" using b0 by simp_all
    then have e1: "\<bar>makeRatCurve 1 ! ?j\<bar> = tanh (2 * ?b)"
      and e2: "\<bar>makeRatCurve 1 ! i\<bar> = tanh (3 * ?b) * 0.9"
      unfolding yi' yj' by simp_all
    show ?thesis unfolding e1 e2 using b0 by (rule clip_compare)
  qed
  have small: "\<bar>makeRatCurve 1 ! ?j\<bar> \<le> \<bar>makeRatCurve 1 ! i\<bar>"
    if "0 < curve_x i \<and> curve_x i \<le> 1 / 60"
  proof -
    from that have "0 \<le> curve_x i * 20.4" and "curve_x i * 20.4 \<le> 0.34" by simp_all
    then have "3 * (tanh (curve_x i * 20.4))\<^sup>2 \<le> 1" by (rule tanh_small)
    with exact that show ?thesis by simp
  qed
  have harder: "\<bar>makeRatCurve 1 ! i\<bar> < 0.9 \<and> 0.9 < \<bar>makeRatCurve 1 ! ?j\<bar>"
    if "1 / 20 \<le> curve_x i"
  proof -
    from that have p: "0 < curve_x i" by simp
    have "2 \<le> curve_x i * 51 * 0.8" using that by simp
    then have "9 / 10 < tanh (curve_x i * 51 * 0.8)" by (rule tanh_gt_9_10)
    then have "0.9 < \<bar>makeRatCurve 1 ! ?j\<bar>" unfolding b [OF p] by simp
    moreover from pos [OF p] have "\<bar>makeRatCurve 1 ! i\<bar> < 0.9" by simp
    ultimately show ?thesis by simp
  qed
  from m differ pos exact small harder show ?thesis by blast
qed

theorem positive_branch_clips_harder_witness:
  "(0::nat) < 33075 \<and> (33075::nat) < 44100 \<and> curve_x 33075 = 1 / 2 \<and>
   curve_x 11025 = - curve_x 33075 \<and>
   makeRatCurve 1 ! 33075 \<noteq> makeRatCurve 1 ! 11025 \<and>
   0 < makeRatCurve 1 ! 33075 \<and> makeRatCurve 1 ! 11025 < 0 \<and>
   \<bar>makeRatCurve 1 ! 33075\<bar> < 0.9 \<and> 0.9 < \<bar>makeRatCurve 1 ! 11025\<bar> \<and>
   (0::nat) < 22271 \<and> (22271::nat) < 44100 \<and> curve_x 22271 = 221 / 22050 \<and>
   curve_x 21829 = - curve_x 22271 \<and>
   \<bar>makeRatCurve 1 ! 21829\<bar> \<le> \<bar>makeRatCurve 1 ! 22271\<bar>"
proof -
  have x: "curve_x 33075 = 1 / 2" by (simp add: curve_x_def samples_def)
  have "(0::nat) < 33075" and "(33075::nat) < 44100" by simp_all
  from positive_branch_clips_harder [OF this] x have big:
    "curve_x 11025 = - curve_x 33075 \<and>
     makeRatCurve 1 ! 33075 \<noteq> makeRatCurve 1 ! 11025 \<and>
     0 < makeRatCurve 1 ! 33075 \<and> makeRatCurve 1 ! 11025 < 0 \<and>
     \<bar>makeRatCurve 1 ! 33075\<bar> < 0.9 \<and> 0.9 < \<bar>makeRatCurve 1 ! 11025\<bar>"
    by auto
  have x': "curve_x 22271 = 221 / 22050" by (simp add: curve_x_def samples_def)
  have "(0::nat) < 22271" and "(22271::nat) < 44100" by simp_all
  from positive_branch_clips_harder [OF this] x' have small:
    "curve_x 21829 = - curve_x 22271 \<and>
     \<bar>makeRatCurve 1 ! 21829\<bar> \<le> \<bar>makeRatCurve 1 ! 22271\<bar>"
    by auto
  from big small x x' show ?thesis by auto
qed

text \<open>
  C5. The filter cutoff that \<open>updateRat\<close> schedules is \<open>200 * (20000 / 200) ^ filter\<close>
  for the merged \<open>filter\<close>; it is strictly increasing in the \<open>filter\<close> supplied, is
  200 Hz at \<open>filter = 0\<close> and 20000 Hz at \<open>filter = 1\<close>.
\<close>

theorem filter_cutoff_sweep:
  "param_target (ratFilter_frequency (updateRat config eng))
     = 200 * (20000 / 200) powr filter_rat (ratConfig (updateRat config eng)) \<and>
   (f1 < f2 \<longrightarrow>
      param_target (ratFilter_frequency
         (updateRat \<lparr>distortion_opt = d, filter_opt = Some f1, volume_opt = v\<rparr> eng))
      < param_target (ratFilter_frequency
         (updateRat \<lparr>distortion_opt = d, filter_opt = Some f2, volume_opt = v\<rparr> eng))) \<and>
   param_target (ratFilter_frequency
       (updateRat \<lparr>distortion_opt = d, filter_opt = Some 0, volume_opt = v\<rparr> eng)) = 200 \<and>
   param_target (ratFilter_frequency
       (updateRat \<lparr>distortion_opt = d, filter_opt = Some 1, volume_opt = v\<rparr> eng)) = 20000"
  by (simp add: updateRat_filter updateRat_ratConfig assign_def)

theorem filter_cutoff_sweep_witness:
  "(0::real) < 1 \<and>
   param_target (ratFilter_frequency
      (updateRat \<lparr>distortion_opt = None, filter_opt = Some 0, volume_opt = None\<rparr>
         (constructor \<lparr>currentTime = 0, sampleRate = 44100\<rparr>)))
   < param_target (ratFilter_frequency
      (updateRat \<lparr>distortion_opt = None, filter_opt = Some 1, volume_opt = None\<rparr>
         (constructor \<lparr>currentTime = 0, sampleRate = 44100\<rparr>)))"
  using filter_cutoff_sweep [of "\<lparr>distortion_opt = None, filter_opt = None, volume_opt = None\<rparr>"
      "constructor \<lparr>currentTime = 0, sampleRate = 44100\<rparr>" 0 1 None None]
  by simp




text \<open>
  C3, as stated, fails: the snare's transient click is a buffer source that is started and
  never given a stop (the fourth source below).
\<close>

theorem snare_click_never_stopped_counterexample:
  "map (source_schedule 0)
     (concat (map sources (new_voices (constructor example_ctx)
        (fst (trigger SNARE 0 example_config example_random (constructor example_ctx)))))) =
     [ScheduledOscillator (Some 0) (Some 0.2),
      ScheduledOscillator (Some 0) (Some 0.15),
      ScheduledBuffer (Some 0) (Some 0.35) (Some 13230),
      ScheduledBuffer (Some 0) None (Some 441)]"
proof -
  have th: "thrown (trigger SNARE 0 example_config example_random (constructor example_ctx)) = None"
    unfolding trigger_thrown by (simp add: example_config_def)
  have sr: "sampleRate (ctx (constructor example_ctx)) = 44100"
    by (simp add: constructor_def example_ctx_def)
  have "nat \<lceil>(44100::real) * 0.3\<rceil> = 13230" and "nat \<lceil>(44100::real) * 0.01\<rceil> = 441"
    by simp_all
  then show ?thesis
    unfolding trigger_schedule [OF th] sr by simp
qed

text \<open>
  C3, amended. For every trigger at a time \<open>\<ge> 0\<close> that returns without an exception, the
  sources it has connected, in order of creation, with start and stop as offsets from the
  trigger time: every oscillator and the two long noise sources (snare wires, clap tail)
  have a stop at a fixed offset; the short noise bursts (kick-mod transient, snare click,
  the four clap bursts) are started with no stop scheduled and play a buffer of
  \<open>ceil(sampleRate * 0.02)\<close>, respectively \<open>ceil(sampleRate * 0.01)\<close>, frames.
\<close>

theorem trigger_source_stops:
  assumes "0 \<le> time" and "thrown (trigger ty time config rnd eng) = None"
  shows "map (source_schedule time)
     (concat (map sources (new_voices eng (fst (trigger ty time config rnd eng))))) =
       (case ty of
          KICK \<Rightarrow>
            [ScheduledOscillator (Some 0) (Some 0.6),
             ScheduledOscillator (Some 0) (Some 0.4),
             ScheduledOscillator (Some 0) (Some 0.05)] @
            (if kickModEnabled eng
             then [ScheduledBuffer (Some 0) None (Some (nat \<lceil>sampleRate (ctx eng) * 0.02\<rceil>))]
             else [])
        | SNARE \<Rightarrow>
            [ScheduledOscillator (Some 0) (Some 0.2),
             ScheduledOscillator (Some 0) (Some 0.15),
             ScheduledBuffer (Some 0) (Some 0.35) (Some (nat \<lceil>sampleRate (ctx eng) * 0.3\<rceil>)),
             ScheduledBuffer (Some 0) None (Some (nat \<lceil>sampleRate (ctx eng) * 0.01\<rceil>))]
        | HAT \<Rightarrow> replicate 6 (ScheduledOscillator (Some 0) (Some 0.1))
        | CLAP \<Rightarrow>
            [ScheduledBuffer (Some 0) None (Some (nat \<lceil>sampleRate (ctx eng) * 0.02\<rceil>)),
             ScheduledBuffer (Some 0.012) None (Some (nat \<lceil>sampleRate (ctx eng) * 0.02\<rceil>)),
             ScheduledBuffer (Some 0.024) None (Some (nat \<lceil>sampleRate (ctx eng) * 0.02\<rceil>)),
             ScheduledBuffer (Some 0.036) None (Some (nat \<lceil>sampleRate (ctx eng) * 0.02\<rceil>)),
             ScheduledBuffer (Some 0.04) (Some 0.34)
               (Some (nat \<lceil>sampleRate (ctx eng) * 0.25\<rceil>))])"
  using assms(2) by (rule trigger_schedule)

theorem trigger_source_stops_witness:
  "(0::real) \<le> 0 \<and>
   thrown (trigger CLAP 0 example_config example_random (constructor example_ctx)) = None \<and>
   map (source_schedule 0)
     (concat (map sources (new_voices (constructor example_ctx)
        (fst (trigger CLAP 0 example_config example_random (constructor example_ctx)))))) =
     [ScheduledBuffer (Some 0) None (Some 882),
      ScheduledBuffer (Some 0.012) None (Some 882),
      ScheduledBuffer (Some 0.024) None (Some 882),
      ScheduledBuffer (Some 0.036) None (Some 882),
      ScheduledBuffer (Some 0.04) (Some 0.34) (Some 11025)]"
proof -
  have t: "(0::real) \<le> 0" by simp
  have th: "thrown (trigger CLAP 0 example_config example_random (constructor example_ctx)) = None"
    unfolding trigger_thrown by simp
  have sr: "sampleRate (ctx (constructor example_ctx)) = 44100"
    by (simp add: constructor_def example_ctx_def)
  have "nat \<lceil>(44100::real) * 0.02\<rceil> = 882" and "nat \<lceil>(44100::real) * 0.25\<rceil> = 11025"
    by simp_all
  with trigger_source_stops [OF t th] th sr show ?thesis by (simp del: trigger.simps)
qed

text \<open>
  C6. A kick at time 0 with volume 1, tune 0.5 and velocity 127 returns without an exception
  and connects exactly these layers. With kick-mod disabled, three: the sub layer (sine at
  45 Hz), the body layer (sine sweeping from 210 Hz to 45 Hz by 80 ms) and the click layer;
  none has a noise source. With kick-mod enabled, four: the body layer sweeps from 350 Hz to
  45 Hz by 40 ms, and the fourth layer is the noise transient, a buffer of
  \<open>ceil(sampleRate * 0.02)\<close> random samples started at time 0, through a highpass at
  500 Hz and a lowpass at 2000 Hz, with a gain falling from 0.2 towards 0.001 by 15 ms.
\<close>

theorem kick_scenario:
  "(let eng0 = setKickMod False eng;
        r = trigger KICK 0 \<lparr>volume = 1, tune = 0.5, decay = d, tone = tn, velocity = 127\<rparr>
              rnd eng0
    in thrown r = None \<and>
       new_voices eng0 (fst r) =
         [Sub (Gain \<lparr>gain = \<lparr>param_value = 1, param_events =
              [SetValueAtTime 0 0, LinearRampToValueAtTime 0.8 0.005,
               ExponentialRampToValueAtTime 0.001 0.5]\<rparr>\<rparr>)
            [Sub (Oscillator \<lparr>osc_type = Sine,
                 osc_frequency = \<lparr>param_value = 440, param_events =
                   [SetValueAtTime 45 0]\<rparr>,
                 osc_detune = \<lparr>param_value = 0, param_events = []\<rparr>,
                 osc_start = Some 0, osc_stop = Some 0.6\<rparr>) []],
          Sub (Gain \<lparr>gain = \<lparr>param_value = 1, param_events =
              [SetValueAtTime 0.9 0, ExponentialRampToValueAtTime 0.001 0.35]\<rparr>\<rparr>)
            [Sub (Oscillator \<lparr>osc_type = Sine,
                 osc_frequency = \<lparr>param_value = 440, param_events =
                   [SetValueAtTime 210 0, ExponentialRampToValueAtTime 45 0.08]\<rparr>,
                 osc_detune = \<lparr>param_value = 0, param_events = []\<rparr>,
                 osc_start = Some 0, osc_stop = Some 0.4\<rparr>) []],
          Sub (Gain \<lparr>gain = \<lparr>param_value = 1, param_events =
              [SetValueAtTime 0.3 0, ExponentialRampToValueAtTime 0.001 0.03]\<rparr>\<rparr>)
            [Sub (BiquadFilter \<lparr>bq_type = Highpass,
                 bq_frequency = \<lparr>param_value = 60, param_events = []\<rparr>,
                 bq_Q = \<lparr>param_value = 1, param_events = []\<rparr>\<rparr>)
               [Sub (Oscillator \<lparr>osc_type = Square,
                    osc_frequency = \<lparr>param_value = 440, param_events =
                      [SetValueAtTime 80 0, ExponentialRampToValueAtTime 40 0.02]\<rparr>,
                    osc_detune = \<lparr>param_value = 0, param_events = []\<rparr>,
                    osc_start = Some 0, osc_stop = Some 0.05\<rparr>) []]]]) \<and>
   (let eng1 = setKickMod True eng;
        r = trigger KICK 0 \<lparr>volume = 1, tune = 0.5, decay = d, tone = tn, velocity = 127\<rparr>
              rnd eng1
    in thrown r = None \<and>
       new_voices eng1 (fst r) =
         [Sub (Gain \<lparr>gain = \<lparr>param_value = 1, param_events =
              [SetValueAtTime 0 0, LinearRampToValueAtTime 0.8 0.005,
               ExponentialRampToValueAtTime 0.001 0.4]\<rparr>\<rparr>)
            [Sub (Oscillator \<lparr>osc_type = Sine,
                 osc_frequency = \<lparr>param_value = 440, param_events =
                   [SetValueAtTime 45 0]\<rparr>,
                 osc_detune = \<lparr>param_value = 0, param_events = []\<rparr>,
                 osc_start = Some 0, osc_stop = Some 0.6\<rparr>) []],
          Sub (Gain \<lparr>gain = \<lparr>param_value = 1, param_events =
              [SetValueAtTime 1.2 0, ExponentialRampToValueAtTime 0.001 0.25]\<rparr>\<rparr>)
            [Sub (Oscillator \<lparr>osc_type = Sine,
                 osc_frequency = \<lparr>param_value = 440, param_events =
                   [SetValueAtTime 350 0, ExponentialRampToValueAtTime 45 0.04]\<rparr>,
                 osc_detune = \<lparr>param_value = 0, param_events = []\<rparr>,
                 osc_start = Some 0, osc_stop = Some 0.4\<rparr>) []],
          Sub (Gain \<lparr>gain = \<lparr>param_value = 1, param_events =
              [SetValueAtTime 0.5 0, ExponentialRampToValueAtTime 0.001 0.03]\<rparr>\<rparr>)
            [Sub (BiquadFilter \<lparr>bq_type = Highpass,
                 bq_frequency = \<lparr>param_value = 100, param_events = []\<rparr>,
                 bq_Q = \<lparr>param_value = 1, param_events = []\<rparr>\<rparr>)
               [Sub (Oscillator \<lparr>osc_type = Sawtooth,
                    osc_frequency = \<lparr>param_value = 440, param_events =
                      [SetValueAtTime 120 0, ExponentialRampToValueAtTime 40 0.02]\<rparr>,
                    osc_detune = \<lparr>param_value = 0, param_events = []\<rparr>,
                    osc_start = Some 0, osc_stop = Some 0.05\<rparr>) []]],
          Sub (Gain \<lparr>gain = \<lparr>param_value = 1, param_events =
              [SetValueAtTime 0.2 0, ExponentialRampToValueAtTime 0.001 0.015]\<rparr>\<rparr>)
            [Sub (BiquadFilter \<lparr>bq_type = Lowpass,
                 bq_frequency = \<lparr>param_value = 2000, param_events = []\<rparr>,
                 bq_Q = \<lparr>param_value = 1, param_events = []\<rparr>\<rparr>)
               [Sub (BiquadFilter \<lparr>bq_type = Highpass,
                    bq_frequency = \<lparr>param_value = 500, param_events = []\<rparr>,
                    bq_Q = \<lparr>param_value = 1, param_events = []\<rparr>\<rparr>)
                  [Sub (BufferSource \<lparr>src_buffer =
                          Some (map (\<lambda>i. rnd i * 2 - 1)
                                  [0..<nat \<lceil>sampleRate (ctx eng) * 0.02\<rceil>]),
                        src_start = Some 0, src_stop = None\<rparr>) []]]]])"
  unfolding Let_def trigger.simps triggerKick_effect thrown_def
  by (simp add: new_voices_def setKickMod_def createNoiseBuffer_data kickSub_def kickBody_def
        kickClick_def kickNoise_def Let_def exponentialRampToValueAtTime_def
        createOscillator_def createGain_def createBiquadFilter_def createBufferSource_def
        newParam_def setValue_def setValueAtTime_def linearRampToValueAtTime_def)

text \<open>
  C8, as stated, fails on the freshly constructed engine: its pre-gain is 1, and
  \<open>updateRat({})\<close> moves the pre-gain target to \<open>1 + 0.4 * 10 = 5\<close>.
\<close>

theorem empty_update_moves_targets_counterexample:
  "param_target (ratPreGain_gain (constructor example_ctx)) = 1 \<and>
   param_target (ratPreGain_gain (updateRat emptyPartial (constructor example_ctx))) = 5 \<and>
   chain_targets (updateRat emptyPartial (constructor example_ctx))
     \<noteq> chain_targets (constructor example_ctx)"
proof -
  have a: "param_target (ratPreGain_gain (constructor example_ctx)) = 1"
    by (simp add: constructor_def param_target_def setValue_def newParam_def)
  have b: "param_target (ratPreGain_gain (updateRat emptyPartial (constructor example_ctx))) = 5"
    by (simp add: updateRat_preGain assign_def emptyPartial_def constructor_def)
  from a b show ?thesis by (simp add: chain_targets_def)
qed

text \<open>
  C8, amended. \<open>updateRat({})\<close> leaves the stored \<open>RatConfig\<close> unchanged and sets every
  target of the effects chain to the value derived from it (pre-gain
  \<open>1 + distortion * 10\<close>, the curve for \<open>distortion\<close>, cutoff
  \<open>200 * (20000 / 200) ^ filter\<close>, post-gain \<open>volume\<close>); issued after any
  \<open>updateRat\<close> call it therefore leaves every target unchanged.
\<close>

theorem empty_update_idempotent:
  "ratConfig (updateRat emptyPartial eng) = ratConfig eng \<and>
   chain_targets (updateRat emptyPartial eng) =
     (1 + distortion (ratConfig eng) * 10,
      Some (makeRatCurve (distortion (ratConfig eng))),
      200 * (20000 / 200) powr filter_rat (ratConfig eng),
      volume_rat (ratConfig eng)) \<and>
   chain_targets (updateRat emptyPartial (updateRat config eng))
     = chain_targets (updateRat config eng)"
  by (simp add: chain_targets_def updateRat_preGain updateRat_filter updateRat_postGain
        updateRat_curve updateRat_ratConfig assign_def emptyPartial_def)

text \<open>
  C9, as stated, fails for the waveshaper: the curve is replaced by the call itself, with
  no ramp.
\<close>

theorem curve_replaced_at_once_counterexample:
  "ratWaveshaper_curve
     (updateRat \<lparr>distortion_opt = Some 1, filter_opt = None, volume_opt = None\<rparr>
        (constructor example_ctx))
   \<noteq> ratWaveshaper_curve (constructor example_ctx)"
  using makeRatCurve_differ
  by (simp add: updateRat_curve assign_def constructor_def)

text \<open>
  C9, amended. \<open>updateRat\<close> leaves the \<open>value\<close> of the pre-gain, the filter cutoff
  and the post-gain as it is and schedules for each one \<open>setTargetAtTime\<close> towards the
  new target, from the current time, with time constant 0.05 s; the waveshaper curve is
  replaced at once by the curve for the merged distortion.
\<close>

theorem updateRat_ramps:
  "(let eng' = updateRat config eng;
        rc = ratConfig eng';
        now = currentTime (ctx eng)
    in ratPreGain_gain eng' =
         (ratPreGain_gain eng)\<lparr>param_events := param_events (ratPreGain_gain eng) @
            [SetTargetAtTime (1 + distortion rc * 10) now 0.05]\<rparr> \<and>
       ratFilter_frequency eng' =
         (ratFilter_frequency eng)\<lparr>param_events := param_events (ratFilter_frequency eng) @
            [SetTargetAtTime (200 * (20000 / 200) powr filter_rat rc) now 0.05]\<rparr> \<and>
       ratPostGain_gain eng' =
         (ratPostGain_gain eng)\<lparr>param_events := param_events (ratPostGain_gain eng) @
            [SetTargetAtTime (volume_rat rc) now 0.05]\<rparr> \<and>
       ratWaveshaper_curve eng' = Some (makeRatCurve (distortion rc)))"
  by (simp add: Let_def updateRat_preGain updateRat_filter updateRat_postGain updateRat_curve
        updateRat_ratConfig setTargetAtTime_def)

text \<open>
  C10. A trigger changes nothing of the engine but the list of sub-graphs connected into
  \<open>ratInput\<close>, to which it appends at least one: the stored \<open>RatConfig\<close>, the
  kick-mod flag and every parameter of the effects chain are as before.
\<close>

theorem trigger_frame:
  "(let eng' = fst (trigger ty time config rnd eng)
    in eng' = eng\<lparr>ratInput_inputs := ratInput_inputs eng @ new_voices eng eng'\<rparr> \<and>
       new_voices eng eng' \<noteq> [] \<and>
       ratConfig eng' = ratConfig eng \<and>
       kickModEnabled eng' = kickModEnabled eng \<and>
       ratInput_gain eng' = ratInput_gain eng \<and>
       ratPreGain_gain eng' = ratPreGain_gain eng \<and>
       ratWaveshaper_curve eng' = ratWaveshaper_curve eng \<and>
       ratWaveshaper_oversample eng' = ratWaveshaper_oversample eng \<and>
       ratFilter_type eng' = ratFilter_type eng \<and>
       ratFilter_frequency eng' = ratFilter_frequency eng \<and>
       ratFilter_Q eng' = ratFilter_Q eng \<and>
       ratPostGain_gain eng' = ratPostGain_gain eng \<and>
       compressor_threshold eng' = compressor_threshold eng \<and>
       compressor_knee eng' = compressor_knee eng \<and>
       compressor_ratio eng' = compressor_ratio eng \<and>
       compressor_attack eng' = compressor_attack eng \<and>
       compressor_release eng' = compressor_release eng \<and>
       outputNode_gain eng' = outputNode_gain eng \<and>
       connections eng' = connections eng \<and>
       ctx eng' = ctx eng)"
proof -
  from trigger_appends [of ty time config rnd eng]
  obtain new where ne: "new \<noteq> []"
    and e: "fst (trigger ty time config rnd eng) =
       eng\<lparr>ratInput_inputs := ratInput_inputs eng @ new\<rparr>"
    by (elim exE conjE)
  show ?thesis unfolding Let_def e using ne by simp
qed

end
